theory Spec2Isabelle
  imports Main
begin

section \<open>Strings and numbers of the host language\<close>

text \<open>
  Strings are byte strings. \<open>toLowerCase\<close> folds the letters A to Z; the keywords the
  adapters search for are ASCII, so nothing else can create or destroy a match.
\<close>

definition lowerChar :: "char \<Rightarrow> char" where
  "lowerChar c =
     (let n = (of_char c :: nat) in if 65 \<le> n \<and> n \<le> 90 then char_of (n + 32) else c)"

definition toLowerCase :: "string \<Rightarrow> string" where
  "toLowerCase s = map lowerChar s"

fun startsWith :: "string \<Rightarrow> string \<Rightarrow> bool" where
  "startsWith s [] = True"
| "startsWith [] (p # ps) = False"
| "startsWith (c # cs) (p # ps) = (c = p \<and> startsWith cs ps)"

fun includesStr :: "string \<Rightarrow> string \<Rightarrow> bool" where
  "includesStr [] sub = (sub = [])"
| "includesStr (c # cs) sub = (startsWith (c # cs) sub \<or> includesStr cs sub)"

definition isHexDigit :: "char \<Rightarrow> bool" where
  "isHexDigit c =
     (let n = (of_char c :: nat)
      in (48 \<le> n \<and> n \<le> 57) \<or> (97 \<le> n \<and> n \<le> 102) \<or> (65 \<le> n \<and> n \<le> 70))"

text \<open>The test \<^verbatim>\<open>/^[0-9a-f]{40}$/i.test(s)\<close>.\<close>

definition isCommitSha :: "string \<Rightarrow> bool" where
  "isCommitSha s = (length s = 40 \<and> list_all isHexDigit s)"

fun digitsOf :: "nat \<Rightarrow> string" where
  "digitsOf n =
     (if n < 10 then [char_of (48 + n)] else digitsOf (n div 10) @ [char_of (48 + n mod 10)])"

declare digitsOf.simps [simp del]

text \<open>
  \<^verbatim>\<open>String(n)\<close> for an integral number (pull-request numbers and identifiers are
  integers far below the range where the host language switches to exponent notation).
\<close>

definition String_of :: "int \<Rightarrow> string" where
  "String_of n = (if n < 0 then CHR ''-'' # digitsOf (nat (- n)) else digitsOf (nat n))"

text \<open>A number that may be NaN, as \<^verbatim>\<open>parseInt\<close> returns it.\<close>

datatype js_num = NaN | Num int

definition isSpace :: "char \<Rightarrow> bool" where
  "isSpace c = (c \<in> set [CHR '' '', CHR 0x09, CHR 0x0A, CHR 0x0B, CHR 0x0C, CHR 0x0D])"

definition isDigit :: "char \<Rightarrow> bool" where
  "isDigit c = (let n = (of_char c :: nat) in 48 \<le> n \<and> n \<le> 57)"

definition digitsValue :: "string \<Rightarrow> int" where
  "digitsValue ds = foldl (\<lambda>acc c. 10 * acc + (int (of_char c) - 48)) 0 ds"

text \<open>\<^verbatim>\<open>parseInt(s, 10)\<close>: leading white space, an optional sign, the longest run of digits.\<close>

definition parseInt10 :: "string \<Rightarrow> js_num" where
  "parseInt10 s =
     (let t = dropWhile isSpace s;
          neg = (t \<noteq> [] \<and> hd t = CHR ''-'');
          u = (if t \<noteq> [] \<and> (hd t = CHR ''-'' \<or> hd t = CHR ''+'') then tl t else t);
          ds = takeWhile isDigit u
      in if ds = [] then NaN else Num (if neg then - digitsValue ds else digitsValue ds))"

text \<open>
  A date is either \<^verbatim>\<open>new Date(s)\<close> for a string of the backend, kept unparsed, or an
  instant in milliseconds (a date object of the backend, or a reading of the clock).
\<close>

datatype js_date = DateFromString string | DateAt int

text \<open>The n-th evaluation of \<^verbatim>\<open>new Date()\<close> during an operation reads \<open>clock n\<close>.\<close>

type_synonym clock = "nat \<Rightarrow> int"

section \<open>types.ts: the normalized data model\<close>

datatype Provider = GitHub | GitLab | AzureDevOps

record Repository =
  provider :: Provider
  owner :: string
  repo :: string
  project :: "string option"

record Branch =
  name :: string
  sha :: string
  isDefault :: bool
  protected :: bool

datatype PullRequestState = PrOpen | PrClosed | PrMerged

record PullRequest =
  pr_id :: int
  number :: int
  title :: string
  description :: "string option"
  state :: PullRequestState
  sourceBranch :: string
  targetBranch :: string
  author :: string
  url :: string
  draft :: bool
  createdAt :: js_date
  updatedAt :: js_date

record CreateBranchInput =
  name_in :: string
  fromRef :: string

record CreatePullRequestInput =
  title_in :: string
  description_in :: "string option"
  sourceBranch_in :: string
  targetBranch_in :: string
  draft_in :: "bool option"

datatype ListState = StateOpen | StateClosed | StateAll

record ListPullRequestsOptions =
  state_opt :: "ListState option"
  limit_opt :: "int option"

text \<open>
  \<^verbatim>\<open>CommitFileInput\<close> and \<^verbatim>\<open>CommitResult\<close> are imported from types.ts by the adapters;
  their fields are the ones the adapters read and write.
\<close>

record CommitFileInput =
  path :: string
  content :: string
  message :: string
  branch :: string

record CommitResult =
  commit_sha :: string
  commit_message :: string

section \<open>errors.ts: the error taxonomy\<close>

datatype Resource = ResRepository | ResBranch | ResPullRequest

text \<open>
  What a backend call can reject with: an \<^verbatim>\<open>Error\<close> instance (its message, its
  \<^verbatim>\<open>status\<close> property when it has one, its \<^verbatim>\<open>retry-after\<close> header when it has
  one), or any other value \<open>v\<close>, kept as \<^verbatim>\<open>String(v)\<close>.
\<close>

datatype native_error =
    JsError string "int option" "string option"
  | NonError string

text \<open>
  What a \<^verbatim>\<open>catch\<close> handler can see: a rejection of the backend, or one of the tagged
  errors the adapter threw itself. A generic error keeps the value it wraps as its cause.
\<close>

datatype thrown =
    Native native_error
  | Forge forge_error
and forge_error =
    GitForgeError Provider string string thrown
  | AuthenticationError Provider string
  | NotFoundError Provider Resource string
  | RateLimitError Provider "js_num option"
  | ValidationError Provider string "string option"

text \<open>\<^verbatim>\<open>error instanceof Error\<close>: every tagged error is an \<^verbatim>\<open>Error\<close>.\<close>

fun isError :: "thrown \<Rightarrow> bool" where
  "isError (Native (JsError m st h)) = True"
| "isError (Native (NonError s)) = False"
| "isError (Forge e) = True"

text \<open>
  \<^verbatim>\<open>error.message\<close> of an \<^verbatim>\<open>Error\<close>, \<^verbatim>\<open>String(error)\<close> of anything else. A tagged
  error without a message field has the empty default message.
\<close>

fun messageOf :: "thrown \<Rightarrow> string" where
  "messageOf (Native (JsError m st h)) = m"
| "messageOf (Native (NonError s)) = s"
| "messageOf (Forge (GitForgeError p operation m c)) = m"
| "messageOf (Forge (AuthenticationError p m)) = m"
| "messageOf (Forge (NotFoundError p r i)) = []"
| "messageOf (Forge (RateLimitError p ra)) = []"
| "messageOf (Forge (ValidationError p m f)) = m"

text \<open>\<^verbatim>\<open>"status" in error\<close> and its value.\<close>

fun statusOf :: "thrown \<Rightarrow> int option" where
  "statusOf (Native (JsError m st h)) = st"
| "statusOf (Native (NonError s)) = None"
| "statusOf (Forge e) = None"

fun retryAfterHeaderOf :: "thrown \<Rightarrow> string option" where
  "retryAfterHeaderOf (Native (JsError m st h)) = h"
| "retryAfterHeaderOf (Native (NonError s)) = None"
| "retryAfterHeaderOf (Forge e) = None"

text \<open>How an effect ends: a value, a typed failure, or a defect (an exception nothing mapped).\<close>

datatype 'a exit = Succeed 'a | Fail forge_error | Die thrown

section \<open>Asynchronous bodies and effects, with the backend calls they make\<close>

text \<open>
  An \<^verbatim>\<open>async\<close> body yields the backend calls it made, in order, and either the value it
  threw (\<open>Inl\<close>) or its result.
\<close>

type_synonym ('c, 'a) async = "'c list \<times> (thrown + 'a)"

definition await :: "'c \<Rightarrow> native_error + 'a \<Rightarrow> ('c, 'a) async" where
  "await c r = ([c], case r of Inl e \<Rightarrow> Inl (Native e) | Inr a \<Rightarrow> Inr a)"

definition resolve :: "'a \<Rightarrow> ('c, 'a) async" where
  "resolve a = ([], Inr a)"

definition throw :: "thrown \<Rightarrow> ('c, 'a) async" where
  "throw e = ([], Inl e)"

definition andThen :: "('c, 'a) async \<Rightarrow> ('a \<Rightarrow> ('c, 'b) async) \<Rightarrow> ('c, 'b) async" where
  "andThen m f =
     (case m of
        (tr, Inl e) \<Rightarrow> (tr, Inl e)
      | (tr, Inr a) \<Rightarrow> (case f a of (tr', r) \<Rightarrow> (tr @ tr', r)))"

text \<open>
  \<^verbatim>\<open>Promise.all\<close> of two calls: both are issued; it rejects with the rejection that
  arrives first, which the flag decides when both reject.
\<close>

definition promiseAll2 ::
  "bool \<Rightarrow> 'c \<Rightarrow> native_error + 'a \<Rightarrow> 'c \<Rightarrow> native_error + 'b \<Rightarrow> ('c, 'a \<times> 'b) async" where
  "promiseAll2 secondFirst c1 r1 c2 r2 =
     ([c1, c2],
      case r1 of
        Inr a \<Rightarrow> (case r2 of Inr b \<Rightarrow> Inr (a, b) | Inl e2 \<Rightarrow> Inl (Native e2))
      | Inl e1 \<Rightarrow>
          (case r2 of
             Inr b \<Rightarrow> Inl (Native e1)
           | Inl e2 \<Rightarrow> Inl (Native (if secondFirst then e2 else e1))))"

type_synonym ('c, 'a) effect = "'c list \<times> 'a exit"

text \<open>\<^verbatim>\<open>Effect.tryPromise({ try, catch })\<close>.\<close>

definition tryPromise :: "('c, 'a) async \<Rightarrow> (thrown \<Rightarrow> forge_error) \<Rightarrow> ('c, 'a) effect" where
  "tryPromise body handler =
     (case body of
        (tr, Inl e) \<Rightarrow> (tr, Fail (handler e))
      | (tr, Inr a) \<Rightarrow> (tr, Succeed a))"

text \<open>\<^verbatim>\<open>yield*\<close> inside \<^verbatim>\<open>Effect.gen\<close>.\<close>

definition yieldThen :: "('c, 'a) effect \<Rightarrow> ('a \<Rightarrow> ('c, 'b) effect) \<Rightarrow> ('c, 'b) effect" where
  "yieldThen m f =
     (case m of
        (tr, Succeed a) \<Rightarrow> (case f a of (tr', r) \<Rightarrow> (tr @ tr', r))
      | (tr, Fail e) \<Rightarrow> (tr, Fail e)
      | (tr, Die d) \<Rightarrow> (tr, Die d))"

text \<open>\<^verbatim>\<open>Effect.catchAll\<close>: recovers from typed failures only.\<close>

definition catchAll :: "('c, 'a) effect \<Rightarrow> (forge_error \<Rightarrow> ('c, 'a) effect) \<Rightarrow> ('c, 'a) effect" where
  "catchAll m h =
     (case m of
        (tr, Fail e) \<Rightarrow> (case h e of (tr', r) \<Rightarrow> (tr @ tr', r))
      | (tr, Succeed a) \<Rightarrow> (tr, Succeed a)
      | (tr, Die d) \<Rightarrow> (tr, Die d))"

section \<open>providers/gitlab.ts\<close>

definition gitlab_mapError :: "thrown \<Rightarrow> string \<Rightarrow> forge_error" where
  "gitlab_mapError error operation =
     (if isError error then
        (let msg = toLowerCase (messageOf error) in
         if includesStr msg ''401'' \<or> includesStr msg ''unauthorized''
         then AuthenticationError GitLab (messageOf error)
         else if includesStr msg ''404'' \<or> includesStr msg ''not found''
         then NotFoundError GitLab ResRepository ''unknown''
         else if includesStr msg ''422'' \<or> includesStr msg ''invalid''
         then ValidationError GitLab (messageOf error) None
         else if includesStr msg ''429'' \<or> includesStr msg ''rate limit''
         then RateLimitError GitLab None
         else GitForgeError GitLab operation (messageOf error) error)
      else GitForgeError GitLab operation (messageOf error) error)"

definition mapMrState :: "string \<Rightarrow> PullRequestState" where
  "mapMrState st =
     (if st = ''merged'' then PrMerged else if st = ''opened'' then PrOpen else PrClosed)"

definition getProjectId :: "string \<Rightarrow> string \<Rightarrow> string" where
  "getProjectId ownr rp = ownr @ ''/'' @ rp"

text \<open>The native shapes of the GitLab client, with the fields the adapter reads.\<close>

record gl_branch =
  glb_name :: string
  glb_commit_id :: string
  glb_protected :: bool

record gl_project =
  default_branch :: string

record gl_mr =
  mr_id :: int
  mr_iid :: int
  mr_title :: string
  mr_description :: "string option"
  mr_state :: string
  source_branch :: string
  target_branch :: string
  author_username :: "string option"
  web_url :: string
  mr_draft :: "bool option"
  work_in_progress :: "bool option"
  mr_created_at :: string
  mr_updated_at :: string

text \<open>The calls the adapter makes on the GitLab client, with their arguments.\<close>

datatype gitlab_call =
    Gl_Branches_create string string string
  | Gl_Projects_show string
  | Gl_Branches_show string string
  | Gl_Branches_all string int
  | Gl_RepositoryFiles_show string string string
  | Gl_RepositoryFiles_edit string string string string string
  | Gl_RepositoryFiles_create string string string string string
  | Gl_MergeRequests_create string string string string "string option"
  | Gl_MergeRequests_show string int
  | Gl_MergeRequests_all string "string option" int

text \<open>The GitLab client: what each call answers, and which of two rejections arrives first.\<close>

record gitlab_backend =
  Branches_create :: "string \<Rightarrow> string \<Rightarrow> string \<Rightarrow> native_error + gl_branch"
  Projects_show :: "string \<Rightarrow> native_error + gl_project"
  Branches_show :: "string \<Rightarrow> string \<Rightarrow> native_error + gl_branch"
  Branches_all :: "string \<Rightarrow> int \<Rightarrow> native_error + gl_branch list"
  RepositoryFiles_show :: "string \<Rightarrow> string \<Rightarrow> string \<Rightarrow> native_error + unit"
  RepositoryFiles_edit ::
    "string \<Rightarrow> string \<Rightarrow> string \<Rightarrow> string \<Rightarrow> string \<Rightarrow> native_error + unit"
  RepositoryFiles_create ::
    "string \<Rightarrow> string \<Rightarrow> string \<Rightarrow> string \<Rightarrow> string \<Rightarrow> native_error + unit"
  MergeRequests_create ::
    "string \<Rightarrow> string \<Rightarrow> string \<Rightarrow> string \<Rightarrow> string option \<Rightarrow> native_error + gl_mr"
  MergeRequests_show :: "string \<Rightarrow> int \<Rightarrow> native_error + gl_mr"
  MergeRequests_all :: "string \<Rightarrow> string option \<Rightarrow> int \<Rightarrow> native_error + gl_mr list"
  gl_secondRejectsFirst :: bool

definition gitlab_toBranch :: "gl_project \<Rightarrow> gl_branch \<Rightarrow> Branch" where
  "gitlab_toBranch proj b =
     \<lparr>name = glb_name b, sha = glb_commit_id b,
      isDefault = (default_branch proj = glb_name b), protected = glb_protected b\<rparr>"

text \<open>
  The object literal that createPullRequest, getPullRequest and listPullRequests each
  build from a merge request (the same text three times in the source).
\<close>

definition gitlab_toPullRequest :: "gl_mr \<Rightarrow> PullRequest" where
  "gitlab_toPullRequest mr =
     \<lparr>pr_id = mr_id mr, number = mr_iid mr, title = mr_title mr,
      description = mr_description mr, state = mapMrState (mr_state mr),
      sourceBranch = source_branch mr, targetBranch = target_branch mr,
      author = (case author_username mr of Some u \<Rightarrow> u | None \<Rightarrow> ''unknown''),
      url = web_url mr,
      draft = (case mr_draft mr of
                 Some d \<Rightarrow> d
               | None \<Rightarrow> (case work_in_progress mr of Some w \<Rightarrow> w | None \<Rightarrow> False)),
      createdAt = DateFromString (mr_created_at mr),
      updatedAt = DateFromString (mr_updated_at mr)\<rparr>"

definition gitlab_createBranch ::
  "gitlab_backend \<Rightarrow> Repository \<Rightarrow> CreateBranchInput \<Rightarrow> (gitlab_call, Branch) effect" where
  "gitlab_createBranch B rp input =
     tryPromise
       (let projectId = getProjectId (owner rp) (repo rp) in
        andThen (await (Gl_Branches_create projectId (name_in input) (fromRef input))
                   (Branches_create B projectId (name_in input) (fromRef input)))
          (\<lambda>b. andThen (await (Gl_Projects_show projectId) (Projects_show B projectId))
            (\<lambda>proj. resolve (gitlab_toBranch proj b))))
       (\<lambda>e. gitlab_mapError e ''createBranch'')"

text \<open>The inline check of getBranch and getPullRequest, before \<open>mapError\<close>.\<close>

definition gitlab_notFoundOr ::
  "Resource \<Rightarrow> string \<Rightarrow> string \<Rightarrow> thrown \<Rightarrow> forge_error" where
  "gitlab_notFoundOr res ident operation e =
     (if isError e \<and> includesStr (toLowerCase (messageOf e)) ''not found''
      then NotFoundError GitLab res ident
      else gitlab_mapError e operation)"

definition gitlab_getBranch ::
  "gitlab_backend \<Rightarrow> Repository \<Rightarrow> string \<Rightarrow> (gitlab_call, Branch) effect" where
  "gitlab_getBranch B rp nm =
     tryPromise
       (let projectId = getProjectId (owner rp) (repo rp) in
        andThen (promiseAll2 (gl_secondRejectsFirst B)
                   (Gl_Branches_show projectId nm) (Branches_show B projectId nm)
                   (Gl_Projects_show projectId) (Projects_show B projectId))
          (\<lambda>(b, proj). resolve (gitlab_toBranch proj b)))
       (gitlab_notFoundOr ResBranch nm ''getBranch'')"

definition gitlab_listBranches ::
  "gitlab_backend \<Rightarrow> Repository \<Rightarrow> (gitlab_call, Branch list) effect" where
  "gitlab_listBranches B rp =
     tryPromise
       (let projectId = getProjectId (owner rp) (repo rp) in
        andThen (promiseAll2 (gl_secondRejectsFirst B)
                   (Gl_Branches_all projectId 100) (Branches_all B projectId 100)
                   (Gl_Projects_show projectId) (Projects_show B projectId))
          (\<lambda>(branches, proj). resolve (map (gitlab_toBranch proj) branches)))
       (\<lambda>e. gitlab_mapError e ''listBranches'')"

text \<open>The existence probe of commitFile: any failure of the call means "absent".\<close>

definition probe :: "'c \<Rightarrow> native_error + 'a \<Rightarrow> ('c, bool) async" where
  "probe c r = ([c], Inr (case r of Inl e \<Rightarrow> False | Inr a \<Rightarrow> True))"

definition gitlab_commitFile ::
  "gitlab_backend \<Rightarrow> Repository \<Rightarrow> CommitFileInput \<Rightarrow> (gitlab_call, CommitResult) effect" where
  "gitlab_commitFile B rp input =
     tryPromise
       (let projectId = getProjectId (owner rp) (repo rp) in
        andThen (probe (Gl_RepositoryFiles_show projectId (path input) (branch input))
                   (RepositoryFiles_show B projectId (path input) (branch input)))
          (\<lambda>fileExists.
            andThen
              (if fileExists
               then await (Gl_RepositoryFiles_edit projectId (path input) (branch input)
                             (content input) (message input))
                      (RepositoryFiles_edit B projectId (path input) (branch input)
                         (content input) (message input))
               else await (Gl_RepositoryFiles_create projectId (path input) (branch input)
                             (content input) (message input))
                      (RepositoryFiles_create B projectId (path input) (branch input)
                         (content input) (message input)))
              (\<lambda>result.
                andThen (await (Gl_Branches_show projectId (branch input))
                           (Branches_show B projectId (branch input)))
                  (\<lambda>b. resolve \<lparr>commit_sha = glb_commit_id b,
                                  commit_message = message input\<rparr>))))
       (\<lambda>e. gitlab_mapError e ''commitFile'')"

definition gitlab_createPullRequest ::
  "gitlab_backend \<Rightarrow> Repository \<Rightarrow> CreatePullRequestInput \<Rightarrow> (gitlab_call, PullRequest) effect"
  where
  "gitlab_createPullRequest B rp input =
     tryPromise
       (let projectId = getProjectId (owner rp) (repo rp);
            ttl = (if draft_in input = Some True then ''Draft: '' @ title_in input
                   else title_in input)
        in andThen (await (Gl_MergeRequests_create projectId (sourceBranch_in input)
                             (targetBranch_in input) ttl (description_in input))
                      (MergeRequests_create B projectId (sourceBranch_in input)
                         (targetBranch_in input) ttl (description_in input)))
             (\<lambda>mr. resolve (gitlab_toPullRequest mr)))
       (\<lambda>e. gitlab_mapError e ''createPullRequest'')"

definition gitlab_getPullRequest ::
  "gitlab_backend \<Rightarrow> Repository \<Rightarrow> int \<Rightarrow> (gitlab_call, PullRequest) effect" where
  "gitlab_getPullRequest B rp num =
     tryPromise
       (let projectId = getProjectId (owner rp) (repo rp) in
        andThen (await (Gl_MergeRequests_show projectId num) (MergeRequests_show B projectId num))
          (\<lambda>mr. resolve (gitlab_toPullRequest mr)))
       (gitlab_notFoundOr ResPullRequest (String_of num) ''getPullRequest'')"

text \<open>\<^verbatim>\<open>options?.state\<close> and \<^verbatim>\<open>options?.limit ?? 30\<close>.\<close>

definition optState :: "ListPullRequestsOptions option \<Rightarrow> ListState option" where
  "optState options = (case options of None \<Rightarrow> None | Some opt \<Rightarrow> state_opt opt)"

definition optLimit :: "ListPullRequestsOptions option \<Rightarrow> int" where
  "optLimit options =
     (case options of
        None \<Rightarrow> 30
      | Some opt \<Rightarrow> (case limit_opt opt of None \<Rightarrow> 30 | Some l \<Rightarrow> l))"

definition gitlab_listPullRequests ::
  "gitlab_backend \<Rightarrow> Repository \<Rightarrow> ListPullRequestsOptions option
     \<Rightarrow> (gitlab_call, PullRequest list) effect" where
  "gitlab_listPullRequests B rp options =
     tryPromise
       (let projectId = getProjectId (owner rp) (repo rp);
            st = (if optState options = Some StateAll then None
                  else if optState options = Some StateClosed then Some ''closed''
                  else Some ''opened'')
        in andThen (await (Gl_MergeRequests_all projectId st (optLimit options))
                      (MergeRequests_all B projectId st (optLimit options)))
             (\<lambda>mrs. resolve (map gitlab_toPullRequest mrs)))
       (\<lambda>e. gitlab_mapError e ''listPullRequests'')"

section \<open>The GitHub provider (the second module of providers/gitlab.ts)\<close>

definition github_mapError :: "thrown \<Rightarrow> string \<Rightarrow> forge_error" where
  "github_mapError error operation =
     (case (if isError error then statusOf error else None) of
        Some status \<Rightarrow>
          if status = 401 \<or> status = 403 then AuthenticationError GitHub (messageOf error)
          else if status = 404 then NotFoundError GitHub ResRepository ''unknown''
          else if status = 422 then ValidationError GitHub (messageOf error) None
          else if status = 429 then
            (case retryAfterHeaderOf error of
               Some h \<Rightarrow>
                 if h \<noteq> [] then RateLimitError GitHub (Some (parseInt10 h))
                 else RateLimitError GitHub None
             | None \<Rightarrow> RateLimitError GitHub None)
          else GitForgeError GitHub operation (messageOf error) error
      | None \<Rightarrow> GitForgeError GitHub operation (messageOf error) error)"

definition mapPrState :: "string \<Rightarrow> bool \<Rightarrow> PullRequestState" where
  "mapPrState st merged =
     (if merged then PrMerged else if st = ''open'' then PrOpen else PrClosed)"

record gh_branch =
  ghb_name :: string
  ghb_commit_sha :: string
  ghb_protected :: bool

record gh_repo =
  gh_default_branch :: string

record gh_pull =
  gh_id :: int
  gh_number :: int
  gh_title :: string
  gh_body :: "string option"
  gh_state :: string
  gh_merged :: "bool option"
  gh_merged_at :: "string option"
  gh_head_ref :: string
  gh_base_ref :: string
  gh_user_login :: "string option"
  gh_html_url :: string
  gh_draft :: "bool option"
  gh_created_at :: string
  gh_updated_at :: string

datatype github_call =
    Gh_git_getRef string string string
  | Gh_git_createRef string string string string
  | Gh_repos_get string string
  | Gh_repos_getBranch string string string
  | Gh_repos_listBranches string string int
  | Gh_pulls_create string string string "string option" string string bool
  | Gh_pulls_get string string int
  | Gh_pulls_list string string string int

record github_backend =
  git_getRef :: "string \<Rightarrow> string \<Rightarrow> string \<Rightarrow> native_error + string"
  git_createRef :: "string \<Rightarrow> string \<Rightarrow> string \<Rightarrow> string \<Rightarrow> native_error + unit"
  repos_get :: "string \<Rightarrow> string \<Rightarrow> native_error + gh_repo"
  repos_getBranch :: "string \<Rightarrow> string \<Rightarrow> string \<Rightarrow> native_error + gh_branch"
  repos_listBranches :: "string \<Rightarrow> string \<Rightarrow> int \<Rightarrow> native_error + gh_branch list"
  pulls_create ::
    "string \<Rightarrow> string \<Rightarrow> string \<Rightarrow> string option \<Rightarrow> string \<Rightarrow> string \<Rightarrow> bool
       \<Rightarrow> native_error + gh_pull"
  pulls_get :: "string \<Rightarrow> string \<Rightarrow> int \<Rightarrow> native_error + gh_pull"
  pulls_list :: "string \<Rightarrow> string \<Rightarrow> string \<Rightarrow> int \<Rightarrow> native_error + gh_pull list"
  gh_secondRejectsFirst :: bool

definition github_createBranch ::
  "github_backend \<Rightarrow> Repository \<Rightarrow> CreateBranchInput \<Rightarrow> (github_call, Branch) effect" where
  "github_createBranch B rp input =
     tryPromise
       (andThen
          (if isCommitSha (fromRef input) then resolve (fromRef input)
           else await (Gh_git_getRef (owner rp) (repo rp) (''heads/'' @ fromRef input))
                  (git_getRef B (owner rp) (repo rp) (''heads/'' @ fromRef input)))
          (\<lambda>sh.
            andThen (await (Gh_git_createRef (owner rp) (repo rp)
                              (''refs/heads/'' @ name_in input) sh)
                       (git_createRef B (owner rp) (repo rp) (''refs/heads/'' @ name_in input) sh))
              (\<lambda>created.
                andThen (await (Gh_repos_get (owner rp) (repo rp))
                           (repos_get B (owner rp) (repo rp)))
                  (\<lambda>repoData.
                    resolve \<lparr>name = name_in input, sha = sh,
                             isDefault = (gh_default_branch repoData = name_in input),
                             protected = False\<rparr>))))
       (\<lambda>e. github_mapError e ''createBranch'')"

text \<open>The inline check of getBranch and getPullRequest, before \<open>mapError\<close>.\<close>

definition github_notFoundOr ::
  "Resource \<Rightarrow> string \<Rightarrow> string \<Rightarrow> thrown \<Rightarrow> forge_error" where
  "github_notFoundOr res ident operation e =
     (if isError e \<and> statusOf e = Some 404
      then NotFoundError GitHub res ident
      else github_mapError e operation)"

definition github_getBranch ::
  "github_backend \<Rightarrow> Repository \<Rightarrow> string \<Rightarrow> (github_call, Branch) effect" where
  "github_getBranch B rp nm =
     tryPromise
       (andThen (promiseAll2 (gh_secondRejectsFirst B)
                   (Gh_repos_getBranch (owner rp) (repo rp) nm)
                   (repos_getBranch B (owner rp) (repo rp) nm)
                   (Gh_repos_get (owner rp) (repo rp)) (repos_get B (owner rp) (repo rp)))
          (\<lambda>(b, repoData).
            resolve \<lparr>name = ghb_name b, sha = ghb_commit_sha b,
                     isDefault = (gh_default_branch repoData = nm),
                     protected = ghb_protected b\<rparr>))
       (github_notFoundOr ResBranch nm ''getBranch'')"

definition github_listBranches ::
  "github_backend \<Rightarrow> Repository \<Rightarrow> (github_call, Branch list) effect" where
  "github_listBranches B rp =
     tryPromise
       (andThen (promiseAll2 (gh_secondRejectsFirst B)
                   (Gh_repos_listBranches (owner rp) (repo rp) 100)
                   (repos_listBranches B (owner rp) (repo rp) 100)
                   (Gh_repos_get (owner rp) (repo rp)) (repos_get B (owner rp) (repo rp)))
          (\<lambda>(branches, repoData).
            resolve (map (\<lambda>b. \<lparr>name = ghb_name b, sha = ghb_commit_sha b,
                                isDefault = (gh_default_branch repoData = ghb_name b),
                                protected = ghb_protected b\<rparr>) branches)))
       (\<lambda>e. github_mapError e ''listBranches'')"

text \<open>
  The object literal built from a pull request; \<open>merged\<close> is what the operation passes to
  \<open>mapPrState\<close> (\<^verbatim>\<open>data.merged ?? false\<close>, or \<^verbatim>\<open>pr.merged_at !== null\<close> in a listing).
\<close>

definition github_toPullRequest :: "bool \<Rightarrow> gh_pull \<Rightarrow> PullRequest" where
  "github_toPullRequest merged d =
     \<lparr>pr_id = gh_id d, number = gh_number d, title = gh_title d, description = gh_body d,
      state = mapPrState (gh_state d) merged,
      sourceBranch = gh_head_ref d, targetBranch = gh_base_ref d,
      author = (case gh_user_login d of Some u \<Rightarrow> u | None \<Rightarrow> ''unknown''),
      url = gh_html_url d,
      draft = (case gh_draft d of Some b \<Rightarrow> b | None \<Rightarrow> False),
      createdAt = DateFromString (gh_created_at d),
      updatedAt = DateFromString (gh_updated_at d)\<rparr>"

definition mergedFlag :: "gh_pull \<Rightarrow> bool" where
  "mergedFlag d = (case gh_merged d of Some b \<Rightarrow> b | None \<Rightarrow> False)"

definition github_createPullRequest ::
  "github_backend \<Rightarrow> Repository \<Rightarrow> CreatePullRequestInput \<Rightarrow> (github_call, PullRequest) effect"
  where
  "github_createPullRequest B rp input =
     tryPromise
       (let dr = (case draft_in input of Some b \<Rightarrow> b | None \<Rightarrow> False) in
        andThen (await (Gh_pulls_create (owner rp) (repo rp) (title_in input)
                          (description_in input) (sourceBranch_in input)
                          (targetBranch_in input) dr)
                   (pulls_create B (owner rp) (repo rp) (title_in input)
                      (description_in input) (sourceBranch_in input)
                      (targetBranch_in input) dr))
          (\<lambda>d. resolve (github_toPullRequest (mergedFlag d) d)))
       (\<lambda>e. github_mapError e ''createPullRequest'')"

definition github_getPullRequest ::
  "github_backend \<Rightarrow> Repository \<Rightarrow> int \<Rightarrow> (github_call, PullRequest) effect" where
  "github_getPullRequest B rp num =
     tryPromise
       (andThen (await (Gh_pulls_get (owner rp) (repo rp) num)
                   (pulls_get B (owner rp) (repo rp) num))
          (\<lambda>d. resolve (github_toPullRequest (mergedFlag d) d)))
       (github_notFoundOr ResPullRequest (String_of num) ''getPullRequest'')"

definition github_listPullRequests ::
  "github_backend \<Rightarrow> Repository \<Rightarrow> ListPullRequestsOptions option
     \<Rightarrow> (github_call, PullRequest list) effect" where
  "github_listPullRequests B rp options =
     tryPromise
       (let st = (if optState options = Some StateAll then ''all''
                  else if optState options = Some StateClosed then ''closed''
                  else ''open'')
        in andThen (await (Gh_pulls_list (owner rp) (repo rp) st (optLimit options))
                      (pulls_list B (owner rp) (repo rp) st (optLimit options)))
             (\<lambda>ds. resolve (map (\<lambda>d. github_toPullRequest (gh_merged_at d \<noteq> None) d) ds)))
       (\<lambda>e. github_mapError e ''listPullRequests'')"

section \<open>providers/azure-devops.ts\<close>

definition azure_mapError :: "thrown \<Rightarrow> string \<Rightarrow> forge_error" where
  "azure_mapError error operation =
     (if isError error then
        (let msg = toLowerCase (messageOf error) in
         if includesStr msg ''401'' \<or> includesStr msg ''unauthorized''
         then AuthenticationError AzureDevOps (messageOf error)
         else if includesStr msg ''404'' \<or> includesStr msg ''not found''
         then NotFoundError AzureDevOps ResRepository ''unknown''
         else if includesStr msg ''400'' \<or> includesStr msg ''invalid''
         then ValidationError AzureDevOps (messageOf error) None
         else if includesStr msg ''429'' \<or> includesStr msg ''rate limit''
         then RateLimitError AzureDevOps None
         else GitForgeError AzureDevOps operation (messageOf error) error)
      else GitForgeError AzureDevOps operation (messageOf error) error)"

definition azure_mapPrState :: "int option \<Rightarrow> PullRequestState" where
  "azure_mapPrState status =
     (if status = Some 1 then PrOpen else if status = Some 3 then PrMerged else PrClosed)"

text \<open>\<^verbatim>\<open>!ref\<close> holds of an absent and of an empty string.\<close>

definition extractBranchName :: "string option \<Rightarrow> string" where
  "extractBranchName r =
     (case r of
        None \<Rightarrow> ''unknown''
      | Some s \<Rightarrow>
          if s = [] then ''unknown''
          else if startsWith s ''refs/heads/'' then drop 11 s else s)"

record az_ref =
  ref_name :: "string option"
  objectId :: "string option"
  isLocked :: "bool option"

record az_update_result =
  success :: "bool option"
  customMessage :: "string option"

record az_repository =
  defaultBranch :: "string option"

record az_identity =
  displayName :: "string option"
  uniqueName :: "string option"

text \<open>
  The answers of the Azure DevOps client have their declared types: lists and objects
  with optional fields. Only \<open>getPullRequest\<close> may answer nothing, which the adapter tests.

  \<^verbatim>\<open>GitPullRequest\<close>; \<open>repository_name\<close> is \<^verbatim>\<open>pr.repository?.name\<close> and
  \<open>repository_project_name\<close> is \<^verbatim>\<open>pr.repository?.project?.name\<close>.
\<close>

record az_pull =
  pullRequestId :: "int option"
  az_title :: "string option"
  az_description :: "string option"
  status :: "int option"
  sourceRefName :: "string option"
  targetRefName :: "string option"
  createdBy :: "az_identity option"
  isDraft :: "bool option"
  creationDate :: "js_date option"
  repository_name :: "string option"
  repository_project_name :: "string option"

text \<open>\<^verbatim>\<open>GitPush\<close>: the commit identifier of each of its commits, when it lists commits.\<close>

record az_push =
  commits :: "string option list option"

record AzureDevOpsConfig =
  token :: string
  orgUrl :: string

text \<open>
  The first \<^verbatim>\<open>new Date()\<close> of the object literal reads the clock at \<open>k\<close>, the second
  at \<open>Suc k\<close>; neither is evaluated when the pull request has a creation date. The
  result comes with the number of readings made so far.
\<close>

definition mapPullRequest :: "az_pull \<Rightarrow> string \<Rightarrow> clock \<Rightarrow> nat \<Rightarrow> PullRequest \<times> nat" where
  "mapPullRequest pr baseUrl clk k =
     (let repoName = (case repository_name pr of Some n \<Rightarrow> n | None \<Rightarrow> ''unknown'');
          proj = (case repository_project_name pr of Some n \<Rightarrow> n | None \<Rightarrow> ''unknown'');
          prUrl = baseUrl @ ''/'' @ proj @ ''/_git/'' @ repoName @ ''/pullrequest/''
                    @ (case pullRequestId pr of Some n \<Rightarrow> String_of n | None \<Rightarrow> ''undefined'')
      in (\<lparr>pr_id = (case pullRequestId pr of Some n \<Rightarrow> n | None \<Rightarrow> 0),
           number = (case pullRequestId pr of Some n \<Rightarrow> n | None \<Rightarrow> 0),
           title = (case az_title pr of Some t \<Rightarrow> t | None \<Rightarrow> []),
           description = az_description pr,
           state = azure_mapPrState (status pr),
           sourceBranch = extractBranchName (sourceRefName pr),
           targetBranch = extractBranchName (targetRefName pr),
           author = (case createdBy pr of
                       None \<Rightarrow> ''unknown''
                     | Some who \<Rightarrow>
                         (case displayName who of
                            Some d \<Rightarrow> d
                          | None \<Rightarrow> (case uniqueName who of Some u \<Rightarrow> u | None \<Rightarrow> ''unknown''))),
           url = prUrl,
           draft = (case isDraft pr of Some b \<Rightarrow> b | None \<Rightarrow> False),
           createdAt = (case creationDate pr of Some d \<Rightarrow> d | None \<Rightarrow> DateAt (clk k)),
           updatedAt = (case creationDate pr of Some d \<Rightarrow> d | None \<Rightarrow> DateAt (clk (Suc k)))\<rparr>,
          (case creationDate pr of Some d \<Rightarrow> k | None \<Rightarrow> Suc (Suc k))))"

text \<open>\<^verbatim>\<open>prs.map((pr) => mapPullRequest(pr, config.orgUrl))\<close>, in order.\<close>

fun mapPullRequests :: "az_pull list \<Rightarrow> string \<Rightarrow> clock \<Rightarrow> nat \<Rightarrow> PullRequest list" where
  "mapPullRequests [] baseUrl clk k = []"
| "mapPullRequests (pr # prs) baseUrl clk k =
     fst (mapPullRequest pr baseUrl clk k)
       # mapPullRequests prs baseUrl clk (snd (mapPullRequest pr baseUrl clk k))"

definition projectMessage :: string where
  "projectMessage =
     ''Azure DevOps requires a project name. Set repo.project to the Azure DevOps project name.''"

text \<open>\<open>getProject\<close> throws where \<^verbatim>\<open>!repo.project\<close>: the field absent or empty.\<close>

definition getProject :: "Repository \<Rightarrow> thrown + string" where
  "getProject rp =
     (case project rp of
        None \<Rightarrow> Inl (Forge (ValidationError AzureDevOps projectMessage (Some ''project'')))
      | Some p \<Rightarrow>
          if p = [] then Inl (Forge (ValidationError AzureDevOps projectMessage (Some ''project'')))
          else Inr p)"

text \<open>A synchronous step of an \<^verbatim>\<open>async\<close> body: no call, a value or an exception.\<close>

definition sync :: "thrown + 'a \<Rightarrow> ('c, 'a) async" where
  "sync r = ([], r)"

datatype azure_call =
    Az_getGitApi
  | Az_getRefs string string string
  | Az_updateRefs string string string string string
  | Az_getRepository string string
  | Az_createPush string string string int string string string string
  | Az_createPullRequest string "string option" string string bool string string
  | Az_getPullRequest string int string
  | Az_getPullRequests string string int string int

text \<open>
  The Azure DevOps client. \<open>updateRefs\<close> takes the one ref update (name, old and new
  object id), the repository and the project; \<open>createPush\<close> the ref name, the old object
  id, the comment, the change type, the item path, the content, the repository and the
  project; \<open>getPullRequests\<close> the repository, the search criteria (repository id and
  status), the project and the page size.
\<close>

record azure_backend =
  getGitApi :: "native_error + unit"
  getRefs :: "string \<Rightarrow> string \<Rightarrow> string \<Rightarrow> native_error + az_ref list"
  updateRefs ::
    "string \<Rightarrow> string \<Rightarrow> string \<Rightarrow> string \<Rightarrow> string \<Rightarrow> native_error + az_update_result list"
  getRepository :: "string \<Rightarrow> string \<Rightarrow> native_error + az_repository"
  createPush ::
    "string \<Rightarrow> string \<Rightarrow> string \<Rightarrow> int \<Rightarrow> string \<Rightarrow> string \<Rightarrow> string \<Rightarrow> string
       \<Rightarrow> native_error + az_push"
  createPullRequest ::
    "string \<Rightarrow> string option \<Rightarrow> string \<Rightarrow> string \<Rightarrow> bool \<Rightarrow> string \<Rightarrow> string
       \<Rightarrow> native_error + az_pull"
  getPullRequest :: "string \<Rightarrow> int \<Rightarrow> string \<Rightarrow> native_error + az_pull option"
  getPullRequests ::
    "string \<Rightarrow> string \<Rightarrow> int \<Rightarrow> string \<Rightarrow> int \<Rightarrow> native_error + az_pull list"
  az_secondRejectsFirst :: bool

text \<open>\<^verbatim>\<open>if (e instanceof NotFoundError) return e; return mapError(e, operation)\<close>.\<close>

definition passNotFound :: "string \<Rightarrow> thrown \<Rightarrow> forge_error" where
  "passNotFound operation e =
     (case e of
        Forge (NotFoundError p r i) \<Rightarrow> NotFoundError p r i
      | _ \<Rightarrow> azure_mapError e operation)"

text \<open>The handler of createBranch, which also returns a \<^verbatim>\<open>ValidationError\<close> as it is.\<close>

definition passValidationOrNotFound :: "string \<Rightarrow> thrown \<Rightarrow> forge_error" where
  "passValidationOrNotFound operation e =
     (case e of
        Forge (ValidationError p m f) \<Rightarrow> ValidationError p m f
      | Forge (NotFoundError p r i) \<Rightarrow> NotFoundError p r i
      | _ \<Rightarrow> azure_mapError e operation)"

text \<open>\<^verbatim>\<open>refs[0]\<close> with \<^verbatim>\<open>?.objectId\<close>, thrown as not found when absent or empty.\<close>

definition firstObjectId :: "string \<Rightarrow> az_ref list \<Rightarrow> thrown + string" where
  "firstObjectId ident refs =
     (case refs of
        [] \<Rightarrow> Inl (Forge (NotFoundError AzureDevOps ResBranch ident))
      | r # rest \<Rightarrow>
          (case objectId r of
             None \<Rightarrow> Inl (Forge (NotFoundError AzureDevOps ResBranch ident))
           | Some oid \<Rightarrow>
               if oid = [] then Inl (Forge (NotFoundError AzureDevOps ResBranch ident))
               else Inr oid))"

definition zeroObjectId :: string where
  "zeroObjectId = replicate 40 (CHR ''0'')"

text \<open>\<^verbatim>\<open>results[0]\<close> with \<^verbatim>\<open>!result?.success\<close>.\<close>

definition checkCreated :: "az_update_result list \<Rightarrow> thrown + unit" where
  "checkCreated results =
     (case results of
        [] \<Rightarrow> Inl (Forge (ValidationError AzureDevOps
                            (''Failed to create branch: '' @ ''unknown error'') None))
      | r # rest \<Rightarrow>
          if success r = Some True then Inr ()
          else Inl (Forge (ValidationError AzureDevOps
                             (''Failed to create branch: ''
                                @ (case customMessage r of Some m \<Rightarrow> m | None \<Rightarrow> ''unknown error''))
                             None)))"

definition azure_createBranch ::
  "azure_backend \<Rightarrow> Repository \<Rightarrow> CreateBranchInput \<Rightarrow> (azure_call, Branch) effect" where
  "azure_createBranch B rp input =
     tryPromise
       (andThen (sync (getProject rp))
          (\<lambda>proj. andThen (await Az_getGitApi (getGitApi B))
            (\<lambda>gitApi.
              andThen
                (if isCommitSha (fromRef input) then resolve (fromRef input)
                 else andThen (await (Az_getRefs (repo rp) proj (''heads/'' @ fromRef input))
                                 (getRefs B (repo rp) proj (''heads/'' @ fromRef input)))
                        (\<lambda>refs. sync (firstObjectId (fromRef input) refs)))
                (\<lambda>sh.
                  andThen (await (Az_updateRefs (''refs/heads/'' @ name_in input) zeroObjectId sh
                                    (repo rp) proj)
                             (updateRefs B (''refs/heads/'' @ name_in input) zeroObjectId sh
                                (repo rp) proj))
                    (\<lambda>results.
                      andThen (sync (checkCreated results))
                        (\<lambda>ok.
                          andThen (await (Az_getRepository (repo rp) proj)
                                     (getRepository B (repo rp) proj))
                            (\<lambda>repoInfo.
                              resolve \<lparr>name = name_in input, sha = sh,
                                       isDefault = (extractBranchName (defaultBranch repoInfo)
                                                      = name_in input),
                                       protected = False\<rparr>)))))))
       (passValidationOrNotFound ''createBranch'')"

definition azure_getBranch ::
  "azure_backend \<Rightarrow> Repository \<Rightarrow> string \<Rightarrow> (azure_call, Branch) effect" where
  "azure_getBranch B rp nm =
     tryPromise
       (andThen (sync (getProject rp))
          (\<lambda>proj. andThen (await Az_getGitApi (getGitApi B))
            (\<lambda>gitApi.
              andThen (await (Az_getRefs (repo rp) proj (''heads/'' @ nm))
                         (getRefs B (repo rp) proj (''heads/'' @ nm)))
                (\<lambda>refs.
                  case refs of
                    [] \<Rightarrow> throw (Forge (NotFoundError AzureDevOps ResBranch nm))
                  | r # rest \<Rightarrow>
                      andThen (await (Az_getRepository (repo rp) proj)
                                 (getRepository B (repo rp) proj))
                        (\<lambda>repoInfo.
                          resolve \<lparr>name = nm,
                                   sha = (case objectId r of Some oid \<Rightarrow> oid | None \<Rightarrow> []),
                                   isDefault = (extractBranchName (defaultBranch repoInfo) = nm),
                                   protected = (case isLocked r of Some b \<Rightarrow> b
                                                | None \<Rightarrow> False)\<rparr>)))))
       (passNotFound ''getBranch'')"

definition azure_listBranches ::
  "azure_backend \<Rightarrow> Repository \<Rightarrow> (azure_call, Branch list) effect" where
  "azure_listBranches B rp =
     tryPromise
       (andThen (sync (getProject rp))
          (\<lambda>proj. andThen (await Az_getGitApi (getGitApi B))
            (\<lambda>gitApi.
              andThen (promiseAll2 (az_secondRejectsFirst B)
                         (Az_getRefs (repo rp) proj ''heads/'')
                         (getRefs B (repo rp) proj ''heads/'')
                         (Az_getRepository (repo rp) proj) (getRepository B (repo rp) proj))
                (\<lambda>(refs, repoInfo).
                  resolve
                    (map (\<lambda>r. \<lparr>name = extractBranchName (ref_name r),
                                sha = (case objectId r of Some oid \<Rightarrow> oid | None \<Rightarrow> []),
                                isDefault = (extractBranchName (ref_name r)
                                               = extractBranchName (defaultBranch repoInfo)),
                                protected = (case isLocked r of Some b \<Rightarrow> b
                                             | None \<Rightarrow> False)\<rparr>) refs)))))
       (\<lambda>e. azure_mapError e ''listBranches'')"

definition getLatestRef ::
  "azure_backend \<Rightarrow> string \<Rightarrow> string \<Rightarrow> string \<Rightarrow> (azure_call, string) effect" where
  "getLatestRef B repoName proj br =
     tryPromise
       (andThen (await (Az_getRefs repoName proj (''heads/'' @ br))
                   (getRefs B repoName proj (''heads/'' @ br)))
          (\<lambda>refs. sync (firstObjectId br refs)))
       (passNotFound ''commitFile'')"

definition pushFile ::
  "azure_backend \<Rightarrow> CommitFileInput \<Rightarrow> string \<Rightarrow> string \<Rightarrow> string \<Rightarrow> string \<Rightarrow> int
     \<Rightarrow> (azure_call, az_push) effect" where
  "pushFile B input repoName proj br oldObjectId changeType =
     tryPromise
       (await (Az_createPush (''refs/heads/'' @ br) oldObjectId (message input) changeType
                 (''/'' @ path input) (content input) repoName proj)
          (createPush B (''refs/heads/'' @ br) oldObjectId (message input) changeType
             (''/'' @ path input) (content input) repoName proj))
       (\<lambda>e. azure_mapError e ''commitFile'')"

text \<open>\<^verbatim>\<open>(push as any).commits?.[0]?.commitId ?? ""\<close>.\<close>

definition firstCommitId :: "az_push \<Rightarrow> string" where
  "firstCommitId push =
     (case commits push of
        None \<Rightarrow> []
      | Some [] \<Rightarrow> []
      | Some (c # rest) \<Rightarrow> (case c of Some i \<Rightarrow> i | None \<Rightarrow> []))"

text \<open>
  commitFile is an \<^verbatim>\<open>Effect.gen\<close>: \<open>getProject\<close> runs in the generator itself, outside
  every \<^verbatim>\<open>tryPromise\<close>, so what it throws is a defect.
\<close>

definition azure_commitFile ::
  "azure_backend \<Rightarrow> Repository \<Rightarrow> CommitFileInput \<Rightarrow> (azure_call, CommitResult) effect" where
  "azure_commitFile B rp input =
     (case getProject rp of
        Inl e \<Rightarrow> ([], Die e)
      | Inr proj \<Rightarrow>
          yieldThen (tryPromise (await Az_getGitApi (getGitApi B))
                       (\<lambda>e. azure_mapError e ''commitFile''))
            (\<lambda>gitApi.
              yieldThen (getLatestRef B (repo rp) proj (branch input))
                (\<lambda>oid.
                  yieldThen
                    (catchAll (pushFile B input (repo rp) proj (branch input) oid 1)
                       (\<lambda>e. pushFile B input (repo rp) proj (branch input) oid 2))
                    (\<lambda>push.
                      ([], Succeed \<lparr>commit_sha = firstCommitId push,
                                    commit_message = message input\<rparr>)))))"

definition azure_createPullRequest ::
  "AzureDevOpsConfig \<Rightarrow> clock \<Rightarrow> azure_backend \<Rightarrow> Repository \<Rightarrow> CreatePullRequestInput
     \<Rightarrow> (azure_call, PullRequest) effect" where
  "azure_createPullRequest config clk B rp input =
     tryPromise
       (andThen (sync (getProject rp))
          (\<lambda>proj. andThen (await Az_getGitApi (getGitApi B))
            (\<lambda>gitApi.
              let dr = (case draft_in input of Some b \<Rightarrow> b | None \<Rightarrow> False) in
              andThen (await (Az_createPullRequest (title_in input) (description_in input)
                                (''refs/heads/'' @ sourceBranch_in input)
                                (''refs/heads/'' @ targetBranch_in input) dr (repo rp) proj)
                         (createPullRequest B (title_in input) (description_in input)
                            (''refs/heads/'' @ sourceBranch_in input)
                            (''refs/heads/'' @ targetBranch_in input) dr (repo rp) proj))
                (\<lambda>pr. resolve (fst (mapPullRequest pr (orgUrl config) clk 0))))))
       (\<lambda>e. azure_mapError e ''createPullRequest'')"

definition azure_getPullRequest ::
  "AzureDevOpsConfig \<Rightarrow> clock \<Rightarrow> azure_backend \<Rightarrow> Repository \<Rightarrow> int
     \<Rightarrow> (azure_call, PullRequest) effect" where
  "azure_getPullRequest config clk B rp num =
     tryPromise
       (andThen (sync (getProject rp))
          (\<lambda>proj. andThen (await Az_getGitApi (getGitApi B))
            (\<lambda>gitApi.
              andThen (await (Az_getPullRequest (repo rp) num proj)
                         (getPullRequest B (repo rp) num proj))
                (\<lambda>found.
                  case found of
                    None \<Rightarrow> throw (Forge (NotFoundError AzureDevOps ResPullRequest
                                            (String_of num)))
                  | Some pr \<Rightarrow> resolve (fst (mapPullRequest pr (orgUrl config) clk 0))))))
       (passNotFound ''getPullRequest'')"

definition azure_listPullRequests ::
  "AzureDevOpsConfig \<Rightarrow> clock \<Rightarrow> azure_backend \<Rightarrow> Repository
     \<Rightarrow> ListPullRequestsOptions option \<Rightarrow> (azure_call, PullRequest list) effect" where
  "azure_listPullRequests config clk B rp options =
     tryPromise
       (andThen (sync (getProject rp))
          (\<lambda>proj. andThen (await Az_getGitApi (getGitApi B))
            (\<lambda>gitApi.
              let st = (if optState options = Some StateAll then 4
                        else if optState options = Some StateClosed then 4
                        else 1)
              in andThen (await (Az_getPullRequests (repo rp) (repo rp) st proj
                                   (optLimit options))
                            (getPullRequests B (repo rp) (repo rp) st proj (optLimit options)))
                   (\<lambda>prs.
                     let kept = (if optState options = Some StateClosed
                                 then filter (\<lambda>pr. status pr = Some 2 \<or> status pr = Some 3) prs
                                 else prs)
                     in resolve (mapPullRequests kept (orgUrl config) clk 0)))))
       (\<lambda>e. azure_mapError e ''listPullRequests'')"

section \<open>What a joined pair of calls rejects with\<close>

text \<open>
  The rejection \<^verbatim>\<open>Promise.all\<close> of two calls surfaces, if any: the only one, or the one
  that arrives first.
\<close>

definition firstRejection ::
  "bool \<Rightarrow> native_error + 'a \<Rightarrow> native_error + 'b \<Rightarrow> native_error option" where
  "firstRejection secondFirst r1 r2 =
     (case r1 of
        Inr a \<Rightarrow> (case r2 of Inr b \<Rightarrow> None | Inl e2 \<Rightarrow> Some e2)
      | Inl e1 \<Rightarrow>
          (case r2 of Inr b \<Rightarrow> Some e1 | Inl e2 \<Rightarrow> Some (if secondFirst then e2 else e1)))"

section \<open>Example repositories and backends\<close>

definition shaA :: string where
  "shaA = ''0123456789abcdef0123456789ABCDEF01234567''"

definition shaB :: string where
  "shaB = ''89abcdef0123456789abcdef0123456789abcdef''"

definition widgets :: Repository where
  "widgets = \<lparr>provider = GitLab, owner = ''acme'', repo = ''widgets'', project = None\<rparr>"

definition octokit :: Repository where
  "octokit = \<lparr>provider = GitHub, owner = ''octokit'', repo = ''octokit.js'', project = None\<rparr>"

definition myrepo :: Repository where
  "myrepo = \<lparr>provider = AzureDevOps, owner = ''myorg'', repo = ''myrepo'',
             project = Some ''MyProject''\<rparr>"

definition myrepo_no_project :: Repository where
  "myrepo_no_project =
     \<lparr>provider = AzureDevOps, owner = ''myorg'', repo = ''myrepo'', project = None\<rparr>"

definition myorg :: AzureDevOpsConfig where
  "myorg = \<lparr>token = ''pat'', orgUrl = ''https://dev.azure.com/myorg''\<rparr>"

text \<open>A GitLab client every call of which rejects with the same value.\<close>

definition gitlab_rejecting :: "native_error \<Rightarrow> gitlab_backend" where
  "gitlab_rejecting e =
     \<lparr>Branches_create = (\<lambda>p n r. Inl e),
      Projects_show = (\<lambda>p. Inl e),
      Branches_show = (\<lambda>p n. Inl e),
      Branches_all = (\<lambda>p k. Inl e),
      RepositoryFiles_show = (\<lambda>p f b. Inl e),
      RepositoryFiles_edit = (\<lambda>p f b c m. Inl e),
      RepositoryFiles_create = (\<lambda>p f b c m. Inl e),
      MergeRequests_create = (\<lambda>p s t ttl d. Inl e),
      MergeRequests_show = (\<lambda>p n. Inl e),
      MergeRequests_all = (\<lambda>p st k. Inl e),
      gl_secondRejectsFirst = False\<rparr>"

text \<open>The project exists, the branch read answers 404 without the words "not found".\<close>

definition gitlab_branch_404 :: gitlab_backend where
  "gitlab_branch_404 =
     (gitlab_rejecting (JsError ''Request failed with status code 404'' None None))
       \<lparr>Projects_show := (\<lambda>p. Inr \<lparr>default_branch = ''main''\<rparr>)\<rparr>"

text \<open>A merge request whose title carries the prefix while both flags are absent.\<close>

definition mr7 :: gl_mr where
  "mr7 = \<lparr>mr_id = 9007, mr_iid = 7, mr_title = ''Draft: Add feature'', mr_description = None,
          mr_state = ''opened'', source_branch = ''feature-x'', target_branch = ''main'',
          author_username = Some ''alice'',
          web_url = ''https://gitlab.com/acme/widgets/-/merge_requests/7'',
          mr_draft = None, work_in_progress = None,
          mr_created_at = ''2024-01-01T00:00:00Z'', mr_updated_at = ''2024-01-02T00:00:00Z''\<rparr>"

text \<open>A merge request whose work-in-progress flag is set while its draft flag is false.\<close>

definition mr8 :: gl_mr where
  "mr8 = mr7\<lparr>mr_id := 9008, mr_iid := 8, mr_title := ''Fix typo'',
             mr_draft := Some False, work_in_progress := Some True\<rparr>"

definition gitlab_serving :: gitlab_backend where
  "gitlab_serving =
     \<lparr>Branches_create =
        (\<lambda>p n r. Inr \<lparr>glb_name = n, glb_commit_id = shaB, glb_protected = True\<rparr>),
      Projects_show = (\<lambda>p. Inr \<lparr>default_branch = ''main''\<rparr>),
      Branches_show =
        (\<lambda>p n. Inr \<lparr>glb_name = n, glb_commit_id = shaB, glb_protected = (n = ''main'')\<rparr>),
      Branches_all =
        (\<lambda>p k. Inr [\<lparr>glb_name = ''main'', glb_commit_id = shaB, glb_protected = True\<rparr>,
                     \<lparr>glb_name = ''feature-x'', glb_commit_id = shaA, glb_protected = False\<rparr>]),
      RepositoryFiles_show = (\<lambda>p f b. Inr ()),
      RepositoryFiles_edit = (\<lambda>p f b c m. Inr ()),
      RepositoryFiles_create = (\<lambda>p f b c m. Inr ()),
      MergeRequests_create = (\<lambda>p s t ttl d. Inr (mr7\<lparr>mr_title := ttl, mr_description := d\<rparr>)),
      MergeRequests_show = (\<lambda>p n. Inr (if n = 8 then mr8 else mr7)),
      MergeRequests_all = (\<lambda>p st k. Inr [mr7, mr8]),
      gl_secondRejectsFirst = False\<rparr>"

definition github_rejecting :: "native_error \<Rightarrow> github_backend" where
  "github_rejecting e =
     \<lparr>git_getRef = (\<lambda>ow r f. Inl e),
      git_createRef = (\<lambda>ow r f s. Inl e),
      repos_get = (\<lambda>ow r. Inl e),
      repos_getBranch = (\<lambda>ow r b. Inl e),
      repos_listBranches = (\<lambda>ow r k. Inl e),
      pulls_create = (\<lambda>ow r ttl d h b dr. Inl e),
      pulls_get = (\<lambda>ow r n. Inl e),
      pulls_list = (\<lambda>ow r st k. Inl e),
      gh_secondRejectsFirst = False\<rparr>"

definition github_serving :: github_backend where
  "github_serving =
     (github_rejecting (NonError ''unused''))
       \<lparr>git_getRef := (\<lambda>ow r f. Inr shaB),
        git_createRef := (\<lambda>ow r f s. Inr ()),
        repos_get := (\<lambda>ow r. Inr \<lparr>gh_default_branch = ''main''\<rparr>),
        repos_getBranch :=
          (\<lambda>ow r b. Inr \<lparr>ghb_name = b, ghb_commit_sha = shaB, ghb_protected = True\<rparr>),
        repos_listBranches :=
          (\<lambda>ow r k. Inr [\<lparr>ghb_name = ''main'', ghb_commit_sha = shaB, ghb_protected = True\<rparr>,
                          \<lparr>ghb_name = ''dev'', ghb_commit_sha = shaA, ghb_protected = False\<rparr>])\<rparr>"

text \<open>Three pull requests, one of each native status; the first has no creation date.\<close>

definition pr1 :: az_pull where
  "pr1 = \<lparr>pullRequestId = Some 1, az_title = Some ''Active'', az_description = None,
          status = Some 1, sourceRefName = Some ''refs/heads/feature-x'',
          targetRefName = Some ''refs/heads/main'', createdBy = None, isDraft = None,
          creationDate = None, repository_name = Some ''myrepo'',
          repository_project_name = Some ''MyProject''\<rparr>"

definition pr2 :: az_pull where
  "pr2 = pr1\<lparr>pullRequestId := Some 2, az_title := Some ''Abandoned'', status := Some 2,
             creationDate := Some (DateAt 1700000000000)\<rparr>"

definition pr3 :: az_pull where
  "pr3 = pr1\<lparr>pullRequestId := Some 3, az_title := Some ''Completed'', status := Some 3,
             creationDate := Some (DateAt 1700000500000)\<rparr>"

text \<open>
  An Azure DevOps client that serves the given refs and pull requests; its pull-request
  search keeps the given status, or everything for status 4.
\<close>

definition azure_serving :: "az_ref list \<Rightarrow> az_pull list \<Rightarrow> azure_backend" where
  "azure_serving refs prs =
     \<lparr>getGitApi = Inr (),
      getRefs = (\<lambda>r p f. Inr refs),
      updateRefs = (\<lambda>n old new r p. Inr [\<lparr>success = Some True, customMessage = None\<rparr>]),
      getRepository = (\<lambda>r p. Inr \<lparr>defaultBranch = Some ''refs/heads/main''\<rparr>),
      createPush = (\<lambda>n old c t f d r p. Inr \<lparr>commits = Some [Some shaA]\<rparr>),
      createPullRequest = (\<lambda>ttl d s t dr r p. Inr pr1),
      getPullRequest = (\<lambda>r n p. Inr (find (\<lambda>pr. pullRequestId pr = Some n) prs)),
      getPullRequests =
        (\<lambda>r rid st p top. Inr (if st = 4 then prs else filter (\<lambda>pr. status pr = Some st) prs)),
      az_secondRejectsFirst = False\<rparr>"

definition mainRef :: az_ref where
  "mainRef = \<lparr>ref_name = Some ''refs/heads/main'', objectId = Some shaB, isLocked = Some True\<rparr>"

text \<open>The clock of the examples advances by one millisecond at every reading.\<close>

definition ticking :: clock where
  "ticking n = 1700000000000 + int n"

section \<open>Facts about asynchronous bodies and their traces\<close>

lemma tryPromise_Succeed: "tryPromise body h = (tr, Succeed a) \<longleftrightarrow> body = (tr, Inr a)"
  by (auto simp: tryPromise_def split: prod.splits sum.splits)

lemma tryPromise_snd_Fail: "snd (tryPromise body h) = Fail e \<Longrightarrow> \<exists>t. h t = e"
  by (auto simp: tryPromise_def split: prod.splits sum.splits)

lemma tryPromise_rejected: "tryPromise (tr, Inl t) h = (tr, Fail (h t))"
  by (simp add: tryPromise_def)

lemma andThen_Inr:
  "andThen m f = (tr, Inr b) \<longleftrightarrow>
     (\<exists>tr1 a tr2. m = (tr1, Inr a) \<and> f a = (tr2, Inr b) \<and> tr = tr1 @ tr2)"
  by (cases m) (auto simp: andThen_def split: prod.splits sum.splits)

lemma andThen_rejected: "andThen (tr, Inl t) f = (tr, Inl t)"
  by (simp add: andThen_def)

lemma await_Inr: "await c r = (tr, Inr a) \<longleftrightarrow> tr = [c] \<and> r = Inr a"
  by (auto simp: await_def split: sum.splits)

lemma sync_Inr: "sync r = (tr, Inr a) \<longleftrightarrow> tr = [] \<and> r = Inr a"
  by (auto simp: sync_def)

lemma resolve_Inr: "resolve x = (tr, Inr a) \<longleftrightarrow> tr = [] \<and> x = a"
  by (auto simp: resolve_def)

lemma promiseAll2_Inr:
  "promiseAll2 sf c1 r1 c2 r2 = (tr, Inr ab) \<longleftrightarrow>
     tr = [c1, c2] \<and> r1 = Inr (fst ab) \<and> r2 = Inr (snd ab)"
  by (cases ab) (auto simp: promiseAll2_def split: sum.splits)

lemma promiseAll2_calls: "fst (promiseAll2 sf c1 r1 c2 r2) = [c1, c2]"
  by (simp add: promiseAll2_def)

lemma promiseAll2_rejected:
  "firstRejection sf r1 r2 = Some e \<Longrightarrow> promiseAll2 sf c1 r1 c2 r2 = ([c1, c2], Inl (Native e))"
  by (auto simp: promiseAll2_def firstRejection_def split: sum.splits)

lemma fst_tryPromise: "fst (tryPromise body h) = fst body"
  by (simp add: tryPromise_def split: prod.splits sum.splits)

lemma fst_andThen:
  "fst (andThen m f) = fst m @ (case snd m of Inl e \<Rightarrow> [] | Inr a \<Rightarrow> fst (f a))"
  by (cases m) (auto simp: andThen_def split: prod.splits sum.splits)

lemma fst_resolve: "fst (resolve a) = []"
  by (simp add: resolve_def)

section \<open>Facts about the examples\<close>

lemma getProject_myrepo: "getProject myrepo = Inr ''MyProject''"
  by (simp add: getProject_def myrepo_def)

lemma getProject_missing:
  "getProject myrepo_no_project = Inl (Forge (ValidationError AzureDevOps projectMessage (Some ''project'')))"
  by (simp add: getProject_def myrepo_no_project_def)



lemma String_of_42: "String_of 42 = ''42''"
  by code_simp

section \<open>C1: Azure DevOps operations on a repository without a project\<close>

lemma azure_mapError_projectMessage:
  "azure_mapError (Forge (ValidationError AzureDevOps projectMessage (Some ''project''))) operation =
     GitForgeError AzureDevOps operation projectMessage
       (Forge (ValidationError AzureDevOps projectMessage (Some ''project'')))"
  by (simp add: azure_mapError_def toLowerCase_def lowerChar_def projectMessage_def char_of_def)

text \<open>
  Claim C1 says that createBranch, getBranch, listBranches and commitFile of the Azure
  DevOps adapter, called with a Repository whose project is absent, fail with a
  ValidationError of field "project" before any backend call. The code, run on such a
  repository, makes no backend call in any of the four, but only createBranch fails with
  the ValidationError: the handlers of getBranch and listBranches return nothing but a
  NotFoundError unchanged, so the ValidationError goes through \<open>mapError\<close>, which matches
  none of its rules on that message and wraps it in a generic error; and commitFile
  throws it inside the generator, where it is a defect and no typed failure.
\<close>

theorem C1_project_missing:
  "azure_createBranch B myrepo_no_project input
     = ([], Fail (ValidationError AzureDevOps projectMessage (Some ''project'')))
   \<and> azure_getBranch B myrepo_no_project ''main''
     = ([], Fail (GitForgeError AzureDevOps ''getBranch'' projectMessage
                   (Forge (ValidationError AzureDevOps projectMessage (Some ''project'')))))
   \<and> azure_listBranches B myrepo_no_project
     = ([], Fail (GitForgeError AzureDevOps ''listBranches'' projectMessage
                   (Forge (ValidationError AzureDevOps projectMessage (Some ''project'')))))
   \<and> azure_commitFile B myrepo_no_project file
     = ([], Die (Forge (ValidationError AzureDevOps projectMessage (Some ''project''))))"
  by (simp add: azure_createBranch_def azure_getBranch_def azure_listBranches_def
        azure_commitFile_def getProject_missing sync_def andThen_def tryPromise_def
        passNotFound_def passValidationOrNotFound_def azure_mapError_projectMessage)

section \<open>C2: not-found on getBranch and getPullRequest\<close>

lemma github_notFoundOr_404:
  "github_notFoundOr res ident operation (Native (JsError m (Some 404) h)) = NotFoundError GitHub res ident"
  by (simp add: github_notFoundOr_def)

lemma gitlab_notFoundOr_text:
  "includesStr (toLowerCase m) ''not found'' \<Longrightarrow>
     gitlab_notFoundOr res ident operation (Native (JsError m st h)) = NotFoundError GitLab res ident"
  by (simp add: gitlab_notFoundOr_def)

lemma lower_404: "toLowerCase ''Request failed with status code 404'' = ''request failed with status code 404''"
  by code_simp

lemma lower_not_found: "includesStr (toLowerCase ''404 Branch Not Found'') ''not found''"
  by code_simp

text \<open>
  Claim C2, amended: getBranch and getPullRequest fail with exactly a NotFoundError
  tagged "branch" (respectively "pull-request") that carries the requested name
  (respectively the number as a string) when, on GitHub, the rejection is an Error of
  status 404; on GitLab, the rejection is an Error whose lower-cased message contains
  "not found"; on Azure DevOps, the backend answers an empty list of refs (respectively
  no pull request).
\<close>

theorem C2_inline_not_found:
  "(firstRejection (gh_secondRejectsFirst Bh) (repos_getBranch Bh (owner rp) (repo rp) nm)
       (repos_get Bh (owner rp) (repo rp)) = Some (JsError m (Some 404) h)
     \<longrightarrow> github_getBranch Bh rp nm
           = ([Gh_repos_getBranch (owner rp) (repo rp) nm, Gh_repos_get (owner rp) (repo rp)],
              Fail (NotFoundError GitHub ResBranch nm)))
   \<and> (pulls_get Bh (owner rp) (repo rp) num = Inl (JsError m (Some 404) h)
     \<longrightarrow> github_getPullRequest Bh rp num
           = ([Gh_pulls_get (owner rp) (repo rp) num],
              Fail (NotFoundError GitHub ResPullRequest (String_of num))))
   \<and> (firstRejection (gl_secondRejectsFirst Bl)
         (Branches_show Bl (getProjectId (owner rp) (repo rp)) nm)
         (Projects_show Bl (getProjectId (owner rp) (repo rp))) = Some (JsError m st h)
       \<and> includesStr (toLowerCase m) ''not found''
     \<longrightarrow> gitlab_getBranch Bl rp nm
           = ([Gl_Branches_show (getProjectId (owner rp) (repo rp)) nm,
               Gl_Projects_show (getProjectId (owner rp) (repo rp))],
              Fail (NotFoundError GitLab ResBranch nm)))
   \<and> (MergeRequests_show Bl (getProjectId (owner rp) (repo rp)) num = Inl (JsError m st h)
       \<and> includesStr (toLowerCase m) ''not found''
     \<longrightarrow> gitlab_getPullRequest Bl rp num
           = ([Gl_MergeRequests_show (getProjectId (owner rp) (repo rp)) num],
              Fail (NotFoundError GitLab ResPullRequest (String_of num))))
   \<and> (getProject rp = Inr proj \<and> getGitApi Ba = Inr ()
       \<and> getRefs Ba (repo rp) proj (''heads/'' @ nm) = Inr []
     \<longrightarrow> azure_getBranch Ba rp nm
           = ([Az_getGitApi, Az_getRefs (repo rp) proj (''heads/'' @ nm)],
              Fail (NotFoundError AzureDevOps ResBranch nm)))
   \<and> (getProject rp = Inr proj \<and> getGitApi Ba = Inr ()
       \<and> getPullRequest Ba (repo rp) num proj = Inr None
     \<longrightarrow> azure_getPullRequest config clk Ba rp num
           = ([Az_getGitApi, Az_getPullRequest (repo rp) num proj],
              Fail (NotFoundError AzureDevOps ResPullRequest (String_of num))))"
proof (intro conjI impI)
  assume "firstRejection (gh_secondRejectsFirst Bh) (repos_getBranch Bh (owner rp) (repo rp) nm)
       (repos_get Bh (owner rp) (repo rp)) = Some (JsError m (Some 404) h)"
  then show "github_getBranch Bh rp nm
           = ([Gh_repos_getBranch (owner rp) (repo rp) nm, Gh_repos_get (owner rp) (repo rp)],
              Fail (NotFoundError GitHub ResBranch nm))"
    by (simp add: github_getBranch_def promiseAll2_rejected andThen_rejected tryPromise_rejected
          github_notFoundOr_404)
next
  assume "pulls_get Bh (owner rp) (repo rp) num = Inl (JsError m (Some 404) h)"
  then show "github_getPullRequest Bh rp num
           = ([Gh_pulls_get (owner rp) (repo rp) num],
              Fail (NotFoundError GitHub ResPullRequest (String_of num)))"
    by (simp add: github_getPullRequest_def await_def andThen_rejected tryPromise_rejected
          github_notFoundOr_404)
next
  assume "firstRejection (gl_secondRejectsFirst Bl)
         (Branches_show Bl (getProjectId (owner rp) (repo rp)) nm)
         (Projects_show Bl (getProjectId (owner rp) (repo rp))) = Some (JsError m st h)
       \<and> includesStr (toLowerCase m) ''not found''"
  then show "gitlab_getBranch Bl rp nm
           = ([Gl_Branches_show (getProjectId (owner rp) (repo rp)) nm,
               Gl_Projects_show (getProjectId (owner rp) (repo rp))],
              Fail (NotFoundError GitLab ResBranch nm))"
    by (simp add: gitlab_getBranch_def Let_def promiseAll2_rejected andThen_rejected
          tryPromise_rejected gitlab_notFoundOr_text)
next
  assume "MergeRequests_show Bl (getProjectId (owner rp) (repo rp)) num = Inl (JsError m st h)
       \<and> includesStr (toLowerCase m) ''not found''"
  then show "gitlab_getPullRequest Bl rp num
           = ([Gl_MergeRequests_show (getProjectId (owner rp) (repo rp)) num],
              Fail (NotFoundError GitLab ResPullRequest (String_of num)))"
    by (simp add: gitlab_getPullRequest_def Let_def await_def andThen_rejected
          tryPromise_rejected gitlab_notFoundOr_text)
next
  assume "getProject rp = Inr proj \<and> getGitApi Ba = Inr ()
       \<and> getRefs Ba (repo rp) proj (''heads/'' @ nm) = Inr []"
  then show "azure_getBranch Ba rp nm
           = ([Az_getGitApi, Az_getRefs (repo rp) proj (''heads/'' @ nm)],
              Fail (NotFoundError AzureDevOps ResBranch nm))"
    by (simp add: azure_getBranch_def sync_def await_def andThen_def throw_def tryPromise_def
          passNotFound_def)
next
  assume "getProject rp = Inr proj \<and> getGitApi Ba = Inr ()
       \<and> getPullRequest Ba (repo rp) num proj = Inr None"
  then show "azure_getPullRequest config clk Ba rp num
           = ([Az_getGitApi, Az_getPullRequest (repo rp) num proj],
              Fail (NotFoundError AzureDevOps ResPullRequest (String_of num)))"
    by (simp add: azure_getPullRequest_def sync_def await_def andThen_def throw_def
          tryPromise_def passNotFound_def)
qed

text \<open>
  Claim C2 as stated fails: a GitLab branch read that rejects with "Request failed with
  status code 404" is a 404-class failure by the adapter's own rules, and getBranch
  answers the generic not-found error of the repository.
\<close>

theorem C2_counterexample:
  "gitlab_getBranch gitlab_branch_404 widgets ''main''
     = ([Gl_Branches_show ''acme/widgets'' ''main'', Gl_Projects_show ''acme/widgets''],
        Fail (NotFoundError GitLab ResRepository ''unknown''))
   \<and> snd (gitlab_getBranch gitlab_branch_404 widgets ''main'')
       \<noteq> Fail (NotFoundError GitLab ResBranch ''main'')"
  by (simp add: gitlab_getBranch_def gitlab_branch_404_def gitlab_rejecting_def widgets_def
        getProjectId_def promiseAll2_def andThen_def tryPromise_def gitlab_notFoundOr_def
        gitlab_mapError_def lower_404 Let_def)

text \<open>One failing read per adapter and operation, each answered with its own not-found error.\<close>

theorem C2_inline_not_found_witness:
  "github_getBranch (github_rejecting (JsError ''Not Found'' (Some 404) None)) octokit ''nope''
     = ([Gh_repos_getBranch ''octokit'' ''octokit.js'' ''nope'', Gh_repos_get ''octokit'' ''octokit.js''],
        Fail (NotFoundError GitHub ResBranch ''nope''))
   \<and> github_getPullRequest (github_rejecting (JsError ''Not Found'' (Some 404) None)) octokit 42
     = ([Gh_pulls_get ''octokit'' ''octokit.js'' 42],
        Fail (NotFoundError GitHub ResPullRequest ''42''))
   \<and> gitlab_getBranch (gitlab_rejecting (JsError ''404 Branch Not Found'' None None)) widgets ''nope''
     = ([Gl_Branches_show ''acme/widgets'' ''nope'', Gl_Projects_show ''acme/widgets''],
        Fail (NotFoundError GitLab ResBranch ''nope''))
   \<and> gitlab_getPullRequest (gitlab_rejecting (JsError ''404 Branch Not Found'' None None)) widgets 42
     = ([Gl_MergeRequests_show ''acme/widgets'' 42],
        Fail (NotFoundError GitLab ResPullRequest ''42''))
   \<and> azure_getBranch (azure_serving [] []) myrepo ''nope''
     = ([Az_getGitApi, Az_getRefs ''myrepo'' ''MyProject'' ''heads/nope''],
        Fail (NotFoundError AzureDevOps ResBranch ''nope''))
   \<and> azure_getPullRequest myorg ticking (azure_serving [] []) myrepo 42
     = ([Az_getGitApi, Az_getPullRequest ''myrepo'' 42 ''MyProject''],
        Fail (NotFoundError AzureDevOps ResPullRequest ''42''))"
  using C2_inline_not_found [of "github_rejecting (JsError ''Not Found'' (Some 404) None)"
      octokit "''nope''" "''Not Found''" None 42, THEN conjunct1]
    C2_inline_not_found [of "github_rejecting (JsError ''Not Found'' (Some 404) None)"
      octokit "''nope''" "''Not Found''" None 42, THEN conjunct2, THEN conjunct1]
    C2_inline_not_found [where Bl = "gitlab_rejecting (JsError ''404 Branch Not Found'' None None)"
      and rp = widgets and nm = "''nope''" and m = "''404 Branch Not Found''" and st = None
      and h = None and num = 42, THEN conjunct2, THEN conjunct2, THEN conjunct1]
    C2_inline_not_found [where Bl = "gitlab_rejecting (JsError ''404 Branch Not Found'' None None)"
      and rp = widgets and nm = "''nope''" and m = "''404 Branch Not Found''" and st = None
      and h = None and num = 42, THEN conjunct2, THEN conjunct2, THEN conjunct2, THEN conjunct1]
    C2_inline_not_found [where Ba = "azure_serving [] []" and rp = myrepo and nm = "''nope''"
      and proj = "''MyProject''" and num = 42 and config = myorg and clk = ticking,
      THEN conjunct2, THEN conjunct2, THEN conjunct2, THEN conjunct2]
  by (simp add: github_rejecting_def gitlab_rejecting_def azure_serving_def octokit_def
        widgets_def firstRejection_def getProjectId_def lower_not_found String_of_42
        getProject_myrepo)
     (simp add: myrepo_def)

section \<open>C3: authentication failures\<close>

lemma forbidden_lower: "toLowerCase ''403 Forbidden'' = ''403 forbidden''"
  by code_simp

text \<open>
  Claim C3 says that on each of the three adapters a native 401- or 403-class failure
  maps to AuthenticationError. The code of the GitLab and the Azure DevOps adapter
  searches the message for "401" and "unauthorized" only: an error "403 Forbidden" meets
  no rule and becomes a generic error, on \<open>mapError\<close> itself and on an operation such as
  listBranches, while the GitHub adapter maps status 403 to AuthenticationError.
\<close>

theorem C3_forbidden:
  "gitlab_mapError (Native (JsError ''403 Forbidden'' None None)) ''listBranches''
     = GitForgeError GitLab ''listBranches'' ''403 Forbidden''
         (Native (JsError ''403 Forbidden'' None None))
   \<and> azure_mapError (Native (JsError ''403 Forbidden'' None None)) ''listBranches''
     = GitForgeError AzureDevOps ''listBranches'' ''403 Forbidden''
         (Native (JsError ''403 Forbidden'' None None))
   \<and> github_mapError (Native (JsError ''Forbidden'' (Some 403) None)) ''listBranches''
     = AuthenticationError GitHub ''Forbidden''
   \<and> gitlab_listBranches (gitlab_rejecting (JsError ''403 Forbidden'' None None)) widgets
     = ([Gl_Branches_all ''acme/widgets'' 100, Gl_Projects_show ''acme/widgets''],
        Fail (GitForgeError GitLab ''listBranches'' ''403 Forbidden''
                (Native (JsError ''403 Forbidden'' None None))))"
  by (simp add: gitlab_mapError_def azure_mapError_def github_mapError_def forbidden_lower
        gitlab_listBranches_def gitlab_rejecting_def widgets_def getProjectId_def
        promiseAll2_def andThen_def tryPromise_def Let_def)

section \<open>C4: drafts on GitLab\<close>

lemma draft_gitlab_toPullRequest:
  "draft (gitlab_toPullRequest mr)
     = (mr_draft mr = Some True \<or> (mr_draft mr = None \<and> work_in_progress mr = Some True))"
  by (auto simp: gitlab_toPullRequest_def split: option.splits)

lemma title_gitlab_toPullRequest: "title (gitlab_toPullRequest mr) = mr_title mr"
  by (simp add: gitlab_toPullRequest_def)

lemma gitlab_listPullRequests_result:
  "gitlab_listPullRequests B rp options = (tr, Succeed ps) \<Longrightarrow>
     \<exists>mrs. MergeRequests_all B (getProjectId (owner rp) (repo rp))
              (if optState options = Some StateAll then None
               else if optState options = Some StateClosed then Some ''closed''
               else Some ''opened'')
              (optLimit options) = Inr mrs
       \<and> ps = map gitlab_toPullRequest mrs
       \<and> map title ps = map mr_title mrs
       \<and> map draft ps
           = map (\<lambda>m. mr_draft m = Some True
                        \<or> (mr_draft m = None \<and> work_in_progress m = Some True)) mrs"
  by (auto simp: gitlab_listPullRequests_def Let_def tryPromise_Succeed andThen_Inr await_Inr
        resolve_Inr comp_def title_gitlab_toPullRequest draft_gitlab_toPullRequest)

text \<open>
  Claim C4, amended: createPullRequest with draft: true sends the backend a title
  prefixed with "Draft: "; the pull request that createPullRequest, getPullRequest and
  listPullRequests return is built from the merge request the backend answers (in a
  listing: from each merge request of the answer, in order) and from nothing else: its
  title is the merge request's title, and its draft field is the merge request's draft
  flag when that flag is present, its work-in-progress flag when only that one is
  present, and false when both are absent. The title is not examined.
\<close>

theorem C4_gitlab_draft:
  "(draft_in input = Some True \<longrightarrow>
      fst (gitlab_createPullRequest B rp input)
        = [Gl_MergeRequests_create (getProjectId (owner rp) (repo rp)) (sourceBranch_in input)
             (targetBranch_in input) (''Draft: '' @ title_in input) (description_in input)])
   \<and> (gitlab_createPullRequest B rp input = (tr, Succeed p) \<longrightarrow>
        (\<exists>mr. p = gitlab_toPullRequest mr
           \<and> MergeRequests_create B (getProjectId (owner rp) (repo rp)) (sourceBranch_in input)
               (targetBranch_in input)
               (if draft_in input = Some True then ''Draft: '' @ title_in input else title_in input)
               (description_in input) = Inr mr))
   \<and> (gitlab_getPullRequest B rp num = (tr', Succeed p') \<longrightarrow>
        (\<exists>mr. p' = gitlab_toPullRequest mr
           \<and> MergeRequests_show B (getProjectId (owner rp) (repo rp)) num = Inr mr))
   \<and> (gitlab_listPullRequests B rp options = (tr'', Succeed ps) \<longrightarrow>
        (\<exists>mrs. MergeRequests_all B (getProjectId (owner rp) (repo rp))
                 (if optState options = Some StateAll then None
                  else if optState options = Some StateClosed then Some ''closed''
                  else Some ''opened'')
                 (optLimit options) = Inr mrs
           \<and> ps = map gitlab_toPullRequest mrs
           \<and> map title ps = map mr_title mrs
           \<and> map draft ps
               = map (\<lambda>m. mr_draft m = Some True
                            \<or> (mr_draft m = None \<and> work_in_progress m = Some True)) mrs))
   \<and> title (gitlab_toPullRequest m) = mr_title m
   \<and> draft (gitlab_toPullRequest m)
       = (mr_draft m = Some True \<or> (mr_draft m = None \<and> work_in_progress m = Some True))"
proof (intro conjI impI)
  assume "draft_in input = Some True"
  then show "fst (gitlab_createPullRequest B rp input)
        = [Gl_MergeRequests_create (getProjectId (owner rp) (repo rp)) (sourceBranch_in input)
             (targetBranch_in input) (''Draft: '' @ title_in input) (description_in input)]"
    by (simp add: gitlab_createPullRequest_def Let_def await_def andThen_def resolve_def
          tryPromise_def split: sum.splits)
next
  assume "gitlab_createPullRequest B rp input = (tr, Succeed p)"
  then show "\<exists>mr. p = gitlab_toPullRequest mr
           \<and> MergeRequests_create B (getProjectId (owner rp) (repo rp)) (sourceBranch_in input)
               (targetBranch_in input)
               (if draft_in input = Some True then ''Draft: '' @ title_in input else title_in input)
               (description_in input) = Inr mr"
    by (auto simp: gitlab_createPullRequest_def Let_def tryPromise_Succeed andThen_Inr await_Inr
          resolve_Inr)
next
  assume "gitlab_getPullRequest B rp num = (tr', Succeed p')"
  then show "\<exists>mr. p' = gitlab_toPullRequest mr
           \<and> MergeRequests_show B (getProjectId (owner rp) (repo rp)) num = Inr mr"
    by (auto simp: gitlab_getPullRequest_def Let_def tryPromise_Succeed andThen_Inr await_Inr
          resolve_Inr)
next
  assume "gitlab_listPullRequests B rp options = (tr'', Succeed ps)"
  then show "\<exists>mrs. MergeRequests_all B (getProjectId (owner rp) (repo rp))
                 (if optState options = Some StateAll then None
                  else if optState options = Some StateClosed then Some ''closed''
                  else Some ''opened'')
                 (optLimit options) = Inr mrs
           \<and> ps = map gitlab_toPullRequest mrs
           \<and> map title ps = map mr_title mrs
           \<and> map draft ps
               = map (\<lambda>m. mr_draft m = Some True
                            \<or> (mr_draft m = None \<and> work_in_progress m = Some True)) mrs"
    by (rule gitlab_listPullRequests_result)
qed (rule title_gitlab_toPullRequest draft_gitlab_toPullRequest)+

text \<open>
  Claim C4 as stated fails: a merge request read back with the title prefix and no flag
  is reported with draft = false, and so is one whose work-in-progress flag is set while
  its draft flag is false.
\<close>

theorem C4_counterexample:
  "gitlab_getPullRequest gitlab_serving widgets 7
     = ([Gl_MergeRequests_show ''acme/widgets'' 7], Succeed (gitlab_toPullRequest mr7))
   \<and> title (gitlab_toPullRequest mr7) = ''Draft: Add feature''
   \<and> startsWith (title (gitlab_toPullRequest mr7)) ''Draft: ''
   \<and> \<not> draft (gitlab_toPullRequest mr7)
   \<and> gitlab_getPullRequest gitlab_serving widgets 8
     = ([Gl_MergeRequests_show ''acme/widgets'' 8], Succeed (gitlab_toPullRequest mr8))
   \<and> work_in_progress mr8 = Some True
   \<and> \<not> draft (gitlab_toPullRequest mr8)"
  by (simp add: gitlab_getPullRequest_def gitlab_serving_def widgets_def getProjectId_def
        await_def andThen_def resolve_def tryPromise_def draft_gitlab_toPullRequest
        title_gitlab_toPullRequest mr7_def mr8_def)

text \<open>A draft created, and merge requests read back one by one and in a listing.\<close>

theorem C4_gitlab_draft_witness:
  "fst (gitlab_createPullRequest gitlab_serving widgets
          \<lparr>title_in = ''Add feature'', description_in = None, sourceBranch_in = ''feature-x'',
           targetBranch_in = ''main'', draft_in = Some True\<rparr>)
     = [Gl_MergeRequests_create ''acme/widgets'' ''feature-x'' ''main'' ''Draft: Add feature'' None]
   \<and> gitlab_createPullRequest gitlab_serving widgets
          \<lparr>title_in = ''Add feature'', description_in = None, sourceBranch_in = ''feature-x'',
           targetBranch_in = ''main'', draft_in = Some True\<rparr>
     = ([Gl_MergeRequests_create ''acme/widgets'' ''feature-x'' ''main'' ''Draft: Add feature'' None],
        Succeed (gitlab_toPullRequest mr7))
   \<and> gitlab_getPullRequest gitlab_serving widgets 8
     = ([Gl_MergeRequests_show ''acme/widgets'' 8], Succeed (gitlab_toPullRequest mr8))
   \<and> gitlab_listPullRequests gitlab_serving widgets None
     = ([Gl_MergeRequests_all ''acme/widgets'' (Some ''opened'') 30],
        Succeed (map gitlab_toPullRequest [mr7, mr8]))
   \<and> map title (map gitlab_toPullRequest [mr7, mr8]) = [''Draft: Add feature'', ''Fix typo'']
   \<and> map draft (map gitlab_toPullRequest [mr7, mr8]) = [False, False]
   \<and> title (gitlab_toPullRequest mr7) = ''Draft: Add feature''
   \<and> draft (gitlab_toPullRequest mr7) = False"
proof -
  let ?input = "\<lparr>title_in = ''Add feature'', description_in = None,
                 sourceBranch_in = ''feature-x'', targetBranch_in = ''main'',
                 draft_in = Some True\<rparr>"
  note T = C4_gitlab_draft [where B = gitlab_serving and rp = widgets and input = ?input
      and num = 8 and options = None and m = mr7]
  have d: "draft_in ?input = Some True" by simp
  have pid: "getProjectId (owner widgets) (repo widgets) = ''acme/widgets''"
    by (simp add: getProjectId_def widgets_def)
  have 1: "fst (gitlab_createPullRequest gitlab_serving widgets ?input)
     = [Gl_MergeRequests_create ''acme/widgets'' ''feature-x'' ''main'' ''Draft: Add feature'' None]"
    using T [THEN conjunct1, THEN mp, OF d] by (simp add: pid)
  have 2: "gitlab_createPullRequest gitlab_serving widgets ?input
     = ([Gl_MergeRequests_create ''acme/widgets'' ''feature-x'' ''main'' ''Draft: Add feature'' None],
        Succeed (gitlab_toPullRequest mr7))"
    by (simp add: gitlab_createPullRequest_def gitlab_serving_def pid await_def andThen_def
          resolve_def tryPromise_def mr7_def Let_def)
  have 3: "gitlab_getPullRequest gitlab_serving widgets 8
     = ([Gl_MergeRequests_show ''acme/widgets'' 8], Succeed (gitlab_toPullRequest mr8))"
    by (simp add: gitlab_getPullRequest_def gitlab_serving_def pid await_def andThen_def
          resolve_def tryPromise_def Let_def)
  have 4: "gitlab_listPullRequests gitlab_serving widgets None
     = ([Gl_MergeRequests_all ''acme/widgets'' (Some ''opened'') 30],
        Succeed (map gitlab_toPullRequest [mr7, mr8]))"
    by (simp add: gitlab_listPullRequests_def gitlab_serving_def pid await_def andThen_def
          resolve_def tryPromise_def optState_def optLimit_def Let_def)
  have 5: "title (gitlab_toPullRequest mr7) = ''Draft: Add feature''"
    using T [THEN conjunct2, THEN conjunct2, THEN conjunct2, THEN conjunct2, THEN conjunct1]
    by (simp add: mr7_def)
  have 6: "draft (gitlab_toPullRequest mr7) = False"
    using T [THEN conjunct2, THEN conjunct2, THEN conjunct2, THEN conjunct2, THEN conjunct2]
    by (simp add: mr7_def)
  have served: "MergeRequests_all gitlab_serving (getProjectId (owner widgets) (repo widgets))
        (if optState None = Some StateAll then None
         else if optState None = Some StateClosed then Some ''closed'' else Some ''opened'')
        (optLimit None) = Inr [mr7, mr8]"
    by (simp add: gitlab_serving_def)
  from T [THEN conjunct2, THEN conjunct2, THEN conjunct2, THEN conjunct1, THEN mp, OF 4]
  obtain mrs where
    a: "MergeRequests_all gitlab_serving (getProjectId (owner widgets) (repo widgets))
        (if optState None = Some StateAll then None
         else if optState None = Some StateClosed then Some ''closed'' else Some ''opened'')
        (optLimit None) = Inr mrs"
    and t: "map title (map gitlab_toPullRequest [mr7, mr8]) = map mr_title mrs"
    and d: "map draft (map gitlab_toPullRequest [mr7, mr8])
        = map (\<lambda>m. mr_draft m = Some True
                     \<or> (mr_draft m = None \<and> work_in_progress m = Some True)) mrs"
    by blast
  from a served have mrs: "mrs = [mr7, mr8]" by simp
  have 7: "map title (map gitlab_toPullRequest [mr7, mr8]) = [''Draft: Add feature'', ''Fix typo'']"
    unfolding t mrs by (simp add: mr7_def mr8_def)
  have 8: "map draft (map gitlab_toPullRequest [mr7, mr8]) = [False, False]"
    unfolding d mrs by (simp add: mr7_def mr8_def)
  from 1 2 3 4 5 6 7 8 show ?thesis by blast
qed

section \<open>C5: listing branches\<close>

lemma github_listBranches_calls:
  "fst (github_listBranches B rp)
     = [Gh_repos_listBranches (owner rp) (repo rp) 100, Gh_repos_get (owner rp) (repo rp)]"
  by (simp add: github_listBranches_def fst_tryPromise fst_andThen promiseAll2_calls fst_resolve
        split: sum.splits prod.splits)

lemma gitlab_listBranches_calls:
  "fst (gitlab_listBranches B rp)
     = [Gl_Branches_all (getProjectId (owner rp) (repo rp)) 100,
        Gl_Projects_show (getProjectId (owner rp) (repo rp))]"
  by (simp add: gitlab_listBranches_def Let_def fst_tryPromise fst_andThen promiseAll2_calls
        fst_resolve split: sum.splits prod.splits)

lemma github_listBranches_result:
  "github_listBranches B rp = (tr, Succeed bs) \<Longrightarrow>
     \<exists>branches. repos_listBranches B (owner rp) (repo rp) 100 = Inr branches
        \<and> map name bs = map ghb_name branches \<and> map sha bs = map ghb_commit_sha branches"
  by (auto simp: github_listBranches_def tryPromise_Succeed andThen_Inr promiseAll2_Inr
        resolve_Inr comp_def split: prod.splits)

lemma gitlab_listBranches_result:
  "gitlab_listBranches B rp = (tr, Succeed bs) \<Longrightarrow>
     \<exists>branches. Branches_all B (getProjectId (owner rp) (repo rp)) 100 = Inr branches
        \<and> map name bs = map glb_name branches \<and> map sha bs = map glb_commit_id branches"
  by (auto simp: gitlab_listBranches_def Let_def tryPromise_Succeed andThen_Inr promiseAll2_Inr
        resolve_Inr gitlab_toBranch_def comp_def split: prod.splits)

lemma azure_listBranches_result:
  "azure_listBranches B rp = (tr, Succeed bs) \<Longrightarrow>
     \<exists>proj refs. getProject rp = Inr proj
        \<and> tr = [Az_getGitApi, Az_getRefs (repo rp) proj ''heads/'', Az_getRepository (repo rp) proj]
        \<and> getRefs B (repo rp) proj ''heads/'' = Inr refs
        \<and> map name bs = map (\<lambda>r. extractBranchName (ref_name r)) refs
        \<and> map sha bs = map (\<lambda>r. case objectId r of Some oid \<Rightarrow> oid | None \<Rightarrow> []) refs"
  by (auto simp: azure_listBranches_def tryPromise_Succeed andThen_Inr promiseAll2_Inr
        resolve_Inr sync_Inr await_Inr comp_def split: prod.splits)

text \<open>
  Claim C5, amended: listBranches of each adapter issues one branch-listing call and one
  repository read, follows no cursor, and returns one Branch per item of the backend's
  answer, in the backend's order. The GitHub and the GitLab adapter ask for a page size of
  100; the Azure DevOps adapter asks for no page size. No adapter truncates the answer.
\<close>

theorem C5_listBranches_one_request:
  "fst (github_listBranches Bh rp)
     = [Gh_repos_listBranches (owner rp) (repo rp) 100, Gh_repos_get (owner rp) (repo rp)]
   \<and> (github_listBranches Bh rp = (trh, Succeed bsh) \<longrightarrow>
        (\<exists>branches. repos_listBranches Bh (owner rp) (repo rp) 100 = Inr branches
           \<and> map name bsh = map ghb_name branches
           \<and> map sha bsh = map ghb_commit_sha branches))
   \<and> fst (gitlab_listBranches Bl rp)
     = [Gl_Branches_all (getProjectId (owner rp) (repo rp)) 100,
        Gl_Projects_show (getProjectId (owner rp) (repo rp))]
   \<and> (gitlab_listBranches Bl rp = (trl, Succeed bsl) \<longrightarrow>
        (\<exists>branches. Branches_all Bl (getProjectId (owner rp) (repo rp)) 100 = Inr branches
           \<and> map name bsl = map glb_name branches
           \<and> map sha bsl = map glb_commit_id branches))
   \<and> (azure_listBranches Ba rp = (tra, Succeed bsa) \<longrightarrow>
        (\<exists>proj refs. getProject rp = Inr proj
           \<and> tra = [Az_getGitApi, Az_getRefs (repo rp) proj ''heads/'',
                    Az_getRepository (repo rp) proj]
           \<and> getRefs Ba (repo rp) proj ''heads/'' = Inr refs
           \<and> map name bsa = map (\<lambda>r. extractBranchName (ref_name r)) refs
           \<and> map sha bsa = map (\<lambda>r. case objectId r of Some oid \<Rightarrow> oid | None \<Rightarrow> []) refs))"
  using github_listBranches_calls [of Bh rp] gitlab_listBranches_calls [of Bl rp]
    github_listBranches_result [of Bh rp trh bsh] gitlab_listBranches_result [of Bl rp trl bsl]
    azure_listBranches_result [of Ba rp tra bsa]
  by (intro conjI impI) assumption+

text \<open>
  Claim C5 as stated fails: when the Azure DevOps backend answers 101 refs, listBranches
  returns 101 branches.
\<close>

theorem C5_counterexample:
  "\<exists>bs. azure_listBranches (azure_serving (replicate 101 mainRef) []) myrepo
          = ([Az_getGitApi, Az_getRefs ''myrepo'' ''MyProject'' ''heads/'',
              Az_getRepository ''myrepo'' ''MyProject''], Succeed bs)
        \<and> length bs = 101"
  by (simp add: azure_listBranches_def azure_serving_def getProject_myrepo sync_def await_def
        promiseAll2_def andThen_def resolve_def tryPromise_def)
     (simp add: myrepo_def)

text \<open>The branch listings of the three example backends.\<close>

theorem C5_listBranches_one_request_witness:
  "fst (github_listBranches github_serving octokit)
     = [Gh_repos_listBranches ''octokit'' ''octokit.js'' 100, Gh_repos_get ''octokit'' ''octokit.js'']
   \<and> (\<exists>bs. snd (github_listBranches github_serving octokit) = Succeed bs
          \<and> map name bs = [''main'', ''dev''])
   \<and> fst (gitlab_listBranches gitlab_serving widgets)
     = [Gl_Branches_all ''acme/widgets'' 100, Gl_Projects_show ''acme/widgets'']
   \<and> (\<exists>bs. snd (gitlab_listBranches gitlab_serving widgets) = Succeed bs
          \<and> map name bs = [''main'', ''feature-x''] \<and> map isDefault bs = [True, False])
   \<and> (\<exists>bs. azure_listBranches (azure_serving [mainRef] []) myrepo
            = ([Az_getGitApi, Az_getRefs ''myrepo'' ''MyProject'' ''heads/'',
                Az_getRepository ''myrepo'' ''MyProject''], Succeed bs)
          \<and> map name bs = [''main''])"
proof -
  note T = C5_listBranches_one_request
  have pid: "getProjectId (owner widgets) (repo widgets) = ''acme/widgets''"
    by (simp add: getProjectId_def widgets_def)
  have 1: "fst (github_listBranches github_serving octokit)
     = [Gh_repos_listBranches ''octokit'' ''octokit.js'' 100, Gh_repos_get ''octokit'' ''octokit.js'']"
    using T [of github_serving octokit, THEN conjunct1] by (simp add: octokit_def)
  obtain trh bsh where gh: "github_listBranches github_serving octokit = (trh, Succeed bsh)"
    by (simp add: github_listBranches_def github_serving_def github_rejecting_def
          promiseAll2_def andThen_def resolve_def tryPromise_def)
  from T [where Bh = github_serving and rp = octokit and trh = trh and bsh = bsh,
      THEN conjunct2, THEN conjunct1, THEN mp, OF gh]
  have 2: "map name bsh = [''main'', ''dev'']"
    by (auto simp: github_serving_def github_rejecting_def)
  have 3: "fst (gitlab_listBranches gitlab_serving widgets)
     = [Gl_Branches_all ''acme/widgets'' 100, Gl_Projects_show ''acme/widgets'']"
    using T [where Bl = gitlab_serving and rp = widgets, THEN conjunct2, THEN conjunct2,
        THEN conjunct1]
    by (simp add: pid)
  have gl: "gitlab_listBranches gitlab_serving widgets
      = ([Gl_Branches_all ''acme/widgets'' 100, Gl_Projects_show ''acme/widgets''],
         Succeed [\<lparr>name = ''main'', sha = shaB, isDefault = True, protected = True\<rparr>,
                  \<lparr>name = ''feature-x'', sha = shaA, isDefault = False, protected = False\<rparr>])"
    by (simp add: gitlab_listBranches_def gitlab_serving_def pid Let_def gitlab_toBranch_def
          promiseAll2_def andThen_def resolve_def tryPromise_def)
  from T [where Bl = gitlab_serving and rp = widgets, THEN conjunct2, THEN conjunct2,
      THEN conjunct2, THEN conjunct1, THEN mp, OF gl]
  have 4: "map name [\<lparr>name = ''main'', sha = shaB, isDefault = True, protected = True\<rparr>,
                     \<lparr>name = ''feature-x'', sha = shaA, isDefault = False, protected = False\<rparr>]
             = [''main'', ''feature-x'']"
    by (auto simp: gitlab_serving_def)
  obtain tra bsa where az: "azure_listBranches (azure_serving [mainRef] []) myrepo = (tra, Succeed bsa)"
    by (simp add: azure_listBranches_def azure_serving_def getProject_myrepo sync_def await_def
          promiseAll2_def andThen_def resolve_def tryPromise_def)
  from T [where Ba = "azure_serving [mainRef] []" and rp = myrepo and tra = tra and bsa = bsa,
      THEN conjunct2, THEN conjunct2, THEN conjunct2, THEN conjunct2, THEN mp, OF az]
  have 5: "tra = [Az_getGitApi, Az_getRefs ''myrepo'' ''MyProject'' ''heads/'',
                  Az_getRepository ''myrepo'' ''MyProject'']
           \<and> map name bsa = [''main'']"
    by (auto simp: azure_serving_def getProject_myrepo mainRef_def extractBranchName_def)
       (simp_all add: myrepo_def)
  from 1 gh 2 3 gl 4 az 5 show ?thesis by simp
qed

section \<open>C6: the source commit of a new branch\<close>













section \<open>C7: closed pull requests on Azure DevOps\<close>

lemma number_mapPullRequests:
  "map number (mapPullRequests prs u clk k)
     = map (\<lambda>pr. case pullRequestId pr of Some n \<Rightarrow> n | None \<Rightarrow> 0) prs"
  by (induction prs arbitrary: k) (simp_all add: mapPullRequest_def Let_def)

lemma state_mapPullRequests:
  "map state (mapPullRequests prs u clk k) = map (\<lambda>pr. azure_mapPrState (status pr)) prs"
  by (induction prs arbitrary: k) (simp_all add: mapPullRequest_def Let_def)

text \<open>
  Claim C7: on the Azure DevOps adapter, listPullRequests with state "closed" asks the
  backend for status 4 (everything) and keeps, in order, exactly the pull requests whose
  native status is 2 or 3; none of status 1 remains, and every result is closed or merged.
\<close>

theorem C7_azure_closed:
  assumes "getProject rp = Inr proj" and "getGitApi B = Inr ()"
    and "optState options = Some StateClosed"
    and "getPullRequests B (repo rp) (repo rp) 4 proj (optLimit options) = Inr prs"
  shows "\<exists>result.
           azure_listPullRequests config clk B rp options
             = ([Az_getGitApi, Az_getPullRequests (repo rp) (repo rp) 4 proj (optLimit options)],
                Succeed result)
           \<and> result = mapPullRequests (filter (\<lambda>pr. status pr = Some 2 \<or> status pr = Some 3) prs)
                        (orgUrl config) clk 0
           \<and> map number result
               = map (\<lambda>pr. case pullRequestId pr of Some n \<Rightarrow> n | None \<Rightarrow> 0)
                   (filter (\<lambda>pr. status pr = Some 2 \<or> status pr = Some 3) prs)
           \<and> list_all (\<lambda>p. state p = PrClosed \<or> state p = PrMerged) result"
proof -
  let ?kept = "filter (\<lambda>pr. status pr = Some 2 \<or> status pr = Some 3) prs"
  have run: "azure_listPullRequests config clk B rp options
      = ([Az_getGitApi, Az_getPullRequests (repo rp) (repo rp) 4 proj (optLimit options)],
         Succeed (mapPullRequests ?kept (orgUrl config) clk 0))"
    using assms
    by (simp add: azure_listPullRequests_def sync_def await_def andThen_def resolve_def
          tryPromise_def Let_def)
  have "list_all (\<lambda>s. s = PrClosed \<or> s = PrMerged) (map (\<lambda>pr. azure_mapPrState (status pr)) ?kept)"
    by (auto simp: list_all_iff azure_mapPrState_def)
  then have "list_all (\<lambda>s. s = PrClosed \<or> s = PrMerged)
               (map state (mapPullRequests ?kept (orgUrl config) clk 0))"
    by (simp only: state_mapPullRequests)
  then have st: "list_all (\<lambda>p. state p = PrClosed \<or> state p = PrMerged)
               (mapPullRequests ?kept (orgUrl config) clk 0)"
    by (simp add: list_all_iff)
  show ?thesis
    using run st number_mapPullRequests [of ?kept "orgUrl config" clk 0] by simp
qed

text \<open>The fixture with one pull request of each status: numbers 2 and 3 remain.\<close>

theorem C7_azure_closed_witness:
  "\<exists>result.
     azure_listPullRequests myorg ticking (azure_serving [] [pr1, pr2, pr3]) myrepo
       (Some \<lparr>state_opt = Some StateClosed, limit_opt = None\<rparr>)
       = ([Az_getGitApi, Az_getPullRequests ''myrepo'' ''myrepo'' 4 ''MyProject'' 30],
          Succeed result)
     \<and> map number result = [2, 3]
     \<and> map state result = [PrClosed, PrMerged]"
proof -
  let ?B = "azure_serving [] [pr1, pr2, pr3]"
  let ?opts = "Some \<lparr>state_opt = Some StateClosed, limit_opt = None\<rparr>"
  have h2: "getGitApi ?B = Inr ()"
    by (simp add: azure_serving_def)
  have h3: "optState ?opts = Some StateClosed"
    by (simp add: optState_def)
  have h4: "getPullRequests ?B (repo myrepo) (repo myrepo) 4 ''MyProject'' (optLimit ?opts)
              = Inr [pr1, pr2, pr3]"
    by (simp add: azure_serving_def)
  have kept: "filter (\<lambda>pr. status pr = Some 2 \<or> status pr = Some 3) [pr1, pr2, pr3] = [pr2, pr3]"
    by (simp add: pr1_def pr2_def pr3_def)
  have st: "map state (mapPullRequests [pr2, pr3] (orgUrl myorg) ticking 0) = [PrClosed, PrMerged]"
    by (simp only: state_mapPullRequests) (simp add: azure_mapPrState_def pr1_def pr2_def pr3_def)
  from C7_azure_closed [OF getProject_myrepo h2 h3 h4, of myorg ticking]
  show ?thesis
    using st by (auto simp: kept optLimit_def myrepo_def pr1_def pr2_def pr3_def)
qed

section \<open>C8: the protected flag of a created branch\<close>

text \<open>
  Claim C8: every successful createBranch of the GitHub and of the Azure DevOps adapter
  returns a Branch with protected = false, whatever the backend answers.
\<close>

theorem C8_protected:
  "(github_createBranch B rp input = (tr, Succeed b) \<longrightarrow> \<not> protected b)
   \<and> (azure_createBranch B' rp' input' = (tr', Succeed b') \<longrightarrow> \<not> protected b')"
  by (auto simp: github_createBranch_def azure_createBranch_def tryPromise_Succeed andThen_Inr
        resolve_Inr)

text \<open>A branch created from "main" on each of the two adapters.\<close>

theorem C8_protected_witness:
  "github_createBranch github_serving octokit \<lparr>name_in = ''feature-x'', fromRef = ''main''\<rparr>
     = ([Gh_git_getRef ''octokit'' ''octokit.js'' ''heads/main'',
         Gh_git_createRef ''octokit'' ''octokit.js'' ''refs/heads/feature-x'' shaB,
         Gh_repos_get ''octokit'' ''octokit.js''],
        Succeed \<lparr>name = ''feature-x'', sha = shaB, isDefault = False, protected = False\<rparr>)
   \<and> \<not> protected \<lparr>name = ''feature-x'', sha = shaB, isDefault = False, protected = False\<rparr>
   \<and> azure_createBranch (azure_serving [mainRef] []) myrepo
        \<lparr>name_in = ''feature-x'', fromRef = ''main''\<rparr>
     = ([Az_getGitApi, Az_getRefs ''myrepo'' ''MyProject'' ''heads/main'',
         Az_updateRefs ''refs/heads/feature-x'' zeroObjectId shaB ''myrepo'' ''MyProject'',
         Az_getRepository ''myrepo'' ''MyProject''],
        Succeed \<lparr>name = ''feature-x'', sha = shaB, isDefault = False, protected = False\<rparr>)"
proof -
  have notsha: "\<not> isCommitSha ''main''"
    by (simp add: isCommitSha_def)
  have gh: "github_createBranch github_serving octokit \<lparr>name_in = ''feature-x'', fromRef = ''main''\<rparr>
     = ([Gh_git_getRef ''octokit'' ''octokit.js'' ''heads/main'',
         Gh_git_createRef ''octokit'' ''octokit.js'' ''refs/heads/feature-x'' shaB,
         Gh_repos_get ''octokit'' ''octokit.js''],
        Succeed \<lparr>name = ''feature-x'', sha = shaB, isDefault = False, protected = False\<rparr>)"
    by (simp add: github_createBranch_def github_serving_def github_rejecting_def octokit_def
          notsha await_def andThen_def resolve_def tryPromise_def)
  have az: "azure_createBranch (azure_serving [mainRef] []) myrepo
        \<lparr>name_in = ''feature-x'', fromRef = ''main''\<rparr>
     = ([Az_getGitApi, Az_getRefs ''myrepo'' ''MyProject'' ''heads/main'',
         Az_updateRefs ''refs/heads/feature-x'' zeroObjectId shaB ''myrepo'' ''MyProject'',
         Az_getRepository ''myrepo'' ''MyProject''],
        Succeed \<lparr>name = ''feature-x'', sha = shaB, isDefault = False, protected = False\<rparr>)"
    by (simp add: azure_createBranch_def azure_serving_def getProject_myrepo notsha
          await_def sync_def andThen_def resolve_def tryPromise_def firstObjectId_def
          mainRef_def shaB_def checkCreated_def extractBranchName_def)
       (simp add: myrepo_def)
  from C8_protected [of github_serving octokit "\<lparr>name_in = ''feature-x'', fromRef = ''main''\<rparr>" _ _
      "azure_serving [mainRef] []" myrepo "\<lparr>name_in = ''feature-x'', fromRef = ''main''\<rparr>"] gh az
  show ?thesis by simp
qed

section \<open>C9: the dates of an Azure DevOps pull request\<close>

lemma dates_mapPullRequest_present:
  "creationDate pr = Some d \<Longrightarrow>
     createdAt (fst (mapPullRequest pr u clk k)) = d
     \<and> updatedAt (fst (mapPullRequest pr u clk k)) = d"
  by (simp add: mapPullRequest_def Let_def)

lemma dates_mapPullRequest_absent:
  "creationDate pr = None \<Longrightarrow>
     createdAt (fst (mapPullRequest pr u clk k)) = DateAt (clk k)
     \<and> updatedAt (fst (mapPullRequest pr u clk k)) = DateAt (clk (Suc k))"
  by (simp add: mapPullRequest_def Let_def)

lemma dates_mapPullRequest:
  "updatedAt (fst (mapPullRequest pr u clk k)) = createdAt (fst (mapPullRequest pr u clk k))
   \<or> (createdAt (fst (mapPullRequest pr u clk k)) = DateAt (clk k)
       \<and> updatedAt (fst (mapPullRequest pr u clk k)) = DateAt (clk (Suc k)))"
  by (cases "creationDate pr") (simp_all add: mapPullRequest_def Let_def)

lemma dates_mapPullRequests:
  "p \<in> set (mapPullRequests prs u clk k) \<Longrightarrow>
     updatedAt p = createdAt p
     \<or> (\<exists>j. createdAt p = DateAt (clk j) \<and> updatedAt p = DateAt (clk (Suc j)))"
proof (induction prs arbitrary: k)
  case Nil
  then show ?case by simp
next
  case (Cons pr prs)
  then show ?case
    using dates_mapPullRequest [of pr u clk k] by auto
qed

lemma createdAt_mapPullRequest:
  "createdAt (fst (mapPullRequest pr u clk k))
     = (case creationDate pr of Some d \<Rightarrow> d | None \<Rightarrow> DateAt (clk k))"
  by (simp add: mapPullRequest_def Let_def)

lemma updatedAt_mapPullRequest:
  "updatedAt (fst (mapPullRequest pr u clk k))
     = (case creationDate pr of Some d \<Rightarrow> d | None \<Rightarrow> DateAt (clk (Suc k)))"
  by (simp add: mapPullRequest_def Let_def)

lemma azure_createPullRequest_result:
  assumes "azure_createPullRequest config clk B rp input = (tr, Succeed p)"
  shows "\<exists>proj pr0. getProject rp = Inr proj
       \<and> createPullRequest B (title_in input) (description_in input)
            (''refs/heads/'' @ sourceBranch_in input) (''refs/heads/'' @ targetBranch_in input)
            (case draft_in input of Some b \<Rightarrow> b | None \<Rightarrow> False) (repo rp) proj = Inr pr0
       \<and> p = fst (mapPullRequest pr0 (orgUrl config) clk 0)"
  using assms
  by (auto simp: azure_createPullRequest_def Let_def tryPromise_Succeed andThen_Inr await_Inr
        sync_Inr resolve_Inr)

lemma azure_getPullRequest_result:
  assumes "azure_getPullRequest config clk B rp num = (tr, Succeed p)"
  shows "\<exists>proj pr0. getProject rp = Inr proj
       \<and> getPullRequest B (repo rp) num proj = Inr (Some pr0)
       \<and> p = fst (mapPullRequest pr0 (orgUrl config) clk 0)"
  using assms
  by (auto simp: azure_getPullRequest_def tryPromise_Succeed andThen_Inr await_Inr
        sync_Inr resolve_Inr throw_def split: option.splits)

lemma azure_listPullRequests_result:
  assumes "azure_listPullRequests config clk B rp options = (tr, Succeed ps)"
  shows "\<exists>proj prs. getProject rp = Inr proj
       \<and> getPullRequests B (repo rp) (repo rp)
            (if optState options = Some StateAll then 4
             else if optState options = Some StateClosed then 4 else 1)
            proj (optLimit options) = Inr prs
       \<and> ps = mapPullRequests
                (if optState options = Some StateClosed
                 then filter (\<lambda>pr. status pr = Some 2 \<or> status pr = Some 3) prs else prs)
                (orgUrl config) clk 0"
  using assms
  by (auto simp: azure_listPullRequests_def Let_def tryPromise_Succeed andThen_Inr await_Inr
        sync_Inr resolve_Inr)

lemma dates_list_mapPullRequests:
  "list_all2
     (\<lambda>pr q. case creationDate pr of
                Some d \<Rightarrow> createdAt q = d \<and> updatedAt q = d
              | None \<Rightarrow> (\<exists>j. createdAt q = DateAt (clk j) \<and> updatedAt q = DateAt (clk (Suc j))))
     prs (mapPullRequests prs u clk k)"
proof (induction prs arbitrary: k)
  case Nil
  then show ?case by simp
next
  case (Cons pr prs)
  have "case creationDate pr of
          Some d \<Rightarrow> createdAt (fst (mapPullRequest pr u clk k)) = d
                    \<and> updatedAt (fst (mapPullRequest pr u clk k)) = d
        | None \<Rightarrow> (\<exists>j. createdAt (fst (mapPullRequest pr u clk k)) = DateAt (clk j)
                        \<and> updatedAt (fst (mapPullRequest pr u clk k)) = DateAt (clk (Suc j)))"
    by (auto simp: createdAt_mapPullRequest updatedAt_mapPullRequest split: option.splits)
  with Cons.IH show ?case by simp
qed

text \<open>
  Claim C9, amended: a PullRequest of the Azure DevOps adapter has createdAt and updatedAt
  both equal to the native creationDate when that is present; when it is absent, each
  field is a reading of the clock of its own, two successive readings, equal only if the
  clock did not advance in between. The pull request that createPullRequest and
  getPullRequest return is built by \<open>mapPullRequest\<close> from the pull request the backend
  answers, and the listing from the pull requests of the backend's answer that are kept,
  one by one in order; so the two fields of every result are the creationDate of that
  native pull request, or clock readings, and nothing else.
\<close>

theorem C9_azure_dates:
  "(creationDate pr = Some d \<longrightarrow>
      createdAt (fst (mapPullRequest pr u clk k)) = d
      \<and> updatedAt (fst (mapPullRequest pr u clk k)) = d)
   \<and> (creationDate pr = None \<longrightarrow>
      createdAt (fst (mapPullRequest pr u clk k)) = DateAt (clk k)
      \<and> updatedAt (fst (mapPullRequest pr u clk k)) = DateAt (clk (Suc k)))
   \<and> (azure_createPullRequest config clk B rp input = (tr, Succeed p) \<longrightarrow>
        (\<exists>proj pr0. getProject rp = Inr proj
           \<and> createPullRequest B (title_in input) (description_in input)
                (''refs/heads/'' @ sourceBranch_in input)
                (''refs/heads/'' @ targetBranch_in input)
                (case draft_in input of Some b \<Rightarrow> b | None \<Rightarrow> False) (repo rp) proj = Inr pr0
           \<and> p = fst (mapPullRequest pr0 (orgUrl config) clk 0)
           \<and> createdAt p = (case creationDate pr0 of Some d \<Rightarrow> d | None \<Rightarrow> DateAt (clk 0))
           \<and> updatedAt p = (case creationDate pr0 of Some d \<Rightarrow> d | None \<Rightarrow> DateAt (clk 1))))
   \<and> (azure_getPullRequest config clk B rp num = (tr', Succeed p') \<longrightarrow>
        (\<exists>proj pr0. getProject rp = Inr proj
           \<and> getPullRequest B (repo rp) num proj = Inr (Some pr0)
           \<and> p' = fst (mapPullRequest pr0 (orgUrl config) clk 0)
           \<and> createdAt p' = (case creationDate pr0 of Some d \<Rightarrow> d | None \<Rightarrow> DateAt (clk 0))
           \<and> updatedAt p' = (case creationDate pr0 of Some d \<Rightarrow> d | None \<Rightarrow> DateAt (clk 1))))
   \<and> (azure_listPullRequests config clk B rp options = (tr'', Succeed ps) \<longrightarrow>
        (\<exists>proj prs kept. getProject rp = Inr proj
           \<and> getPullRequests B (repo rp) (repo rp)
                (if optState options = Some StateAll then 4
                 else if optState options = Some StateClosed then 4 else 1)
                proj (optLimit options) = Inr prs
           \<and> kept = (if optState options = Some StateClosed
                      then filter (\<lambda>pr. status pr = Some 2 \<or> status pr = Some 3) prs else prs)
           \<and> ps = mapPullRequests kept (orgUrl config) clk 0
           \<and> list_all2
                (\<lambda>pr q. case creationDate pr of
                           Some d \<Rightarrow> createdAt q = d \<and> updatedAt q = d
                         | None \<Rightarrow> (\<exists>j. createdAt q = DateAt (clk j)
                                         \<and> updatedAt q = DateAt (clk (Suc j))))
                kept ps))"
proof (intro conjI impI)
  assume "azure_createPullRequest config clk B rp input = (tr, Succeed p)"
  from azure_createPullRequest_result [OF this] obtain proj pr0 where
    a: "getProject rp = Inr proj"
    and b: "createPullRequest B (title_in input) (description_in input)
                (''refs/heads/'' @ sourceBranch_in input)
                (''refs/heads/'' @ targetBranch_in input)
                (case draft_in input of Some b \<Rightarrow> b | None \<Rightarrow> False) (repo rp) proj = Inr pr0"
    and c: "p = fst (mapPullRequest pr0 (orgUrl config) clk 0)"
    by blast
  have d: "createdAt p = (case creationDate pr0 of Some d \<Rightarrow> d | None \<Rightarrow> DateAt (clk 0))"
    unfolding c by (rule createdAt_mapPullRequest)
  have e: "updatedAt p = (case creationDate pr0 of Some d \<Rightarrow> d | None \<Rightarrow> DateAt (clk 1))"
    unfolding c by (simp add: updatedAt_mapPullRequest split: option.splits)
  from a b c d e
  show "\<exists>proj pr0. getProject rp = Inr proj
           \<and> createPullRequest B (title_in input) (description_in input)
                (''refs/heads/'' @ sourceBranch_in input)
                (''refs/heads/'' @ targetBranch_in input)
                (case draft_in input of Some b \<Rightarrow> b | None \<Rightarrow> False) (repo rp) proj = Inr pr0
           \<and> p = fst (mapPullRequest pr0 (orgUrl config) clk 0)
           \<and> createdAt p = (case creationDate pr0 of Some d \<Rightarrow> d | None \<Rightarrow> DateAt (clk 0))
           \<and> updatedAt p = (case creationDate pr0 of Some d \<Rightarrow> d | None \<Rightarrow> DateAt (clk 1))"
    by (intro exI conjI)
next
  assume "azure_getPullRequest config clk B rp num = (tr', Succeed p')"
  from azure_getPullRequest_result [OF this] obtain proj pr0 where
    a: "getProject rp = Inr proj"
    and b: "getPullRequest B (repo rp) num proj = Inr (Some pr0)"
    and c: "p' = fst (mapPullRequest pr0 (orgUrl config) clk 0)"
    by blast
  have d: "createdAt p' = (case creationDate pr0 of Some d \<Rightarrow> d | None \<Rightarrow> DateAt (clk 0))"
    unfolding c by (rule createdAt_mapPullRequest)
  have e: "updatedAt p' = (case creationDate pr0 of Some d \<Rightarrow> d | None \<Rightarrow> DateAt (clk 1))"
    unfolding c by (simp add: updatedAt_mapPullRequest split: option.splits)
  from a b c d e
  show "\<exists>proj pr0. getProject rp = Inr proj
           \<and> getPullRequest B (repo rp) num proj = Inr (Some pr0)
           \<and> p' = fst (mapPullRequest pr0 (orgUrl config) clk 0)
           \<and> createdAt p' = (case creationDate pr0 of Some d \<Rightarrow> d | None \<Rightarrow> DateAt (clk 0))
           \<and> updatedAt p' = (case creationDate pr0 of Some d \<Rightarrow> d | None \<Rightarrow> DateAt (clk 1))"
    by (intro exI conjI)
next
  assume "azure_listPullRequests config clk B rp options = (tr'', Succeed ps)"
  from azure_listPullRequests_result [OF this] obtain proj prs where
    a: "getProject rp = Inr proj"
    and b: "getPullRequests B (repo rp) (repo rp)
                (if optState options = Some StateAll then 4
                 else if optState options = Some StateClosed then 4 else 1)
                proj (optLimit options) = Inr prs"
    and c: "ps = mapPullRequests
                (if optState options = Some StateClosed
                 then filter (\<lambda>pr. status pr = Some 2 \<or> status pr = Some 3) prs else prs)
                (orgUrl config) clk 0"
    by blast
  define kept where "kept = (if optState options = Some StateClosed
                      then filter (\<lambda>pr. status pr = Some 2 \<or> status pr = Some 3) prs else prs)"
  have c': "ps = mapPullRequests kept (orgUrl config) clk 0"
    using c by (simp only: kept_def)
  have d: "list_all2
                (\<lambda>pr q. case creationDate pr of
                           Some d \<Rightarrow> createdAt q = d \<and> updatedAt q = d
                         | None \<Rightarrow> (\<exists>j. createdAt q = DateAt (clk j)
                                         \<and> updatedAt q = DateAt (clk (Suc j))))
                kept ps"
    unfolding c' by (rule dates_list_mapPullRequests)
  from a b kept_def c' d
  show "\<exists>proj prs kept. getProject rp = Inr proj
           \<and> getPullRequests B (repo rp) (repo rp)
                (if optState options = Some StateAll then 4
                 else if optState options = Some StateClosed then 4 else 1)
                proj (optLimit options) = Inr prs
           \<and> kept = (if optState options = Some StateClosed
                      then filter (\<lambda>pr. status pr = Some 2 \<or> status pr = Some 3) prs else prs)
           \<and> ps = mapPullRequests kept (orgUrl config) clk 0
           \<and> list_all2
                (\<lambda>pr q. case creationDate pr of
                           Some d \<Rightarrow> createdAt q = d \<and> updatedAt q = d
                         | None \<Rightarrow> (\<exists>j. createdAt q = DateAt (clk j)
                                         \<and> updatedAt q = DateAt (clk (Suc j))))
                kept ps"
    by (intro exI conjI)
qed (simp_all add: dates_mapPullRequest_present dates_mapPullRequest_absent)

text \<open>
  Claim C9 as stated fails: for a pull request without creationDate, read while the clock
  advances, updatedAt is one millisecond after createdAt.
\<close>

theorem C9_counterexample:
  "\<exists>p. azure_getPullRequest myorg ticking (azure_serving [] [pr1, pr2, pr3]) myrepo 1
          = ([Az_getGitApi, Az_getPullRequest ''myrepo'' 1 ''MyProject''], Succeed p)
        \<and> createdAt p = DateAt 1700000000000
        \<and> updatedAt p = DateAt 1700000000001
        \<and> updatedAt p \<noteq> createdAt p"
proof -
  have none: "creationDate pr1 = None" by (simp add: pr1_def)
  have run: "azure_getPullRequest myorg ticking (azure_serving [] [pr1, pr2, pr3]) myrepo 1
          = ([Az_getGitApi, Az_getPullRequest ''myrepo'' 1 ''MyProject''],
             Succeed (fst (mapPullRequest pr1 (orgUrl myorg) ticking 0)))"
    by (simp add: azure_getPullRequest_def azure_serving_def getProject_myrepo sync_def
          await_def andThen_def resolve_def tryPromise_def pr1_def)
       (simp add: myrepo_def)
  show ?thesis
    using run dates_mapPullRequest_absent [OF none, of "orgUrl myorg" ticking 0]
    by (simp add: ticking_def)
qed

text \<open>A pull request with a creation date, and one without.\<close>

theorem C9_azure_dates_witness:
  "createdAt (fst (mapPullRequest pr2 (orgUrl myorg) ticking 0)) = DateAt 1700000000000
   \<and> updatedAt (fst (mapPullRequest pr2 (orgUrl myorg) ticking 0)) = DateAt 1700000000000
   \<and> createdAt (fst (mapPullRequest pr1 (orgUrl myorg) ticking 0)) = DateAt (ticking 0)
   \<and> updatedAt (fst (mapPullRequest pr1 (orgUrl myorg) ticking 0)) = DateAt (ticking 1)
   \<and> (\<exists>p. azure_getPullRequest myorg ticking (azure_serving [] [pr1, pr2, pr3]) myrepo 2
             = ([Az_getGitApi, Az_getPullRequest ''myrepo'' 2 ''MyProject''], Succeed p)
          \<and> createdAt p = DateAt 1700000000000
          \<and> updatedAt p = DateAt 1700000000000)
   \<and> (\<exists>p. azure_createPullRequest myorg ticking (azure_serving [] [pr1, pr2, pr3]) myrepo
               \<lparr>title_in = ''Active'', description_in = None, sourceBranch_in = ''feature-x'',
                targetBranch_in = ''main'', draft_in = None\<rparr>
             = ([Az_getGitApi,
                 Az_createPullRequest ''Active'' None ''refs/heads/feature-x'' ''refs/heads/main''
                   False ''myrepo'' ''MyProject''], Succeed p)
          \<and> createdAt p = DateAt (ticking 0)
          \<and> updatedAt p = DateAt (ticking 1))
   \<and> (\<exists>ps. azure_listPullRequests myorg ticking (azure_serving [] [pr1, pr2, pr3]) myrepo
                (Some \<lparr>state_opt = Some StateClosed, limit_opt = None\<rparr>)
             = ([Az_getGitApi, Az_getPullRequests ''myrepo'' ''myrepo'' 4 ''MyProject'' 30],
                Succeed ps)
          \<and> map createdAt ps = [DateAt 1700000000000, DateAt 1700000500000]
          \<and> map updatedAt ps = [DateAt 1700000000000, DateAt 1700000500000])"
proof -
  let ?B = "azure_serving [] [pr1, pr2, pr3]"
  let ?input = "\<lparr>title_in = ''Active'', description_in = None, sourceBranch_in = ''feature-x'',
                 targetBranch_in = ''main'', draft_in = None\<rparr>"
  let ?opts = "Some \<lparr>state_opt = Some StateClosed, limit_opt = None\<rparr>"
  have some: "creationDate pr2 = Some (DateAt 1700000000000)"
    by (simp add: pr2_def pr1_def)
  have some3: "creationDate pr3 = Some (DateAt 1700000500000)"
    by (simp add: pr3_def pr1_def)
  have none: "creationDate pr1 = None"
    by (simp add: pr1_def)
  have rp: "repo myrepo = ''myrepo''"
    by (simp add: myrepo_def)
  note present = C9_azure_dates [where pr = pr2 and d = "DateAt 1700000000000"
      and u = "orgUrl myorg" and clk = ticking and k = 0, THEN conjunct1, THEN mp, OF some]
  note absent = C9_azure_dates [where pr = pr1 and u = "orgUrl myorg" and clk = ticking
      and k = 0, THEN conjunct2, THEN conjunct1, THEN mp, OF none]
  have run: "azure_getPullRequest myorg ticking ?B myrepo 2
          = ([Az_getGitApi, Az_getPullRequest ''myrepo'' 2 ''MyProject''],
             Succeed (fst (mapPullRequest pr2 (orgUrl myorg) ticking 0)))"
    by (simp add: azure_getPullRequest_def azure_serving_def getProject_myrepo sync_def
          await_def andThen_def resolve_def tryPromise_def pr1_def pr2_def)
       (simp add: myrepo_def)
  have found: "getPullRequest ?B ''myrepo'' 2 ''MyProject'' = Inr (Some pr2)"
    by (simp add: azure_serving_def pr1_def pr2_def)
  from C9_azure_dates [where config = myorg and clk = ticking and B = ?B and rp = myrepo
      and num = 2, THEN conjunct2, THEN conjunct2, THEN conjunct2, THEN conjunct1, THEN mp,
      OF run]
  obtain proj pr0 where
    g1: "getProject myrepo = Inr proj"
    and g2: "getPullRequest ?B (repo myrepo) 2 proj = Inr (Some pr0)"
    and g3: "createdAt (fst (mapPullRequest pr2 (orgUrl myorg) ticking 0))
               = (case creationDate pr0 of Some d \<Rightarrow> d | None \<Rightarrow> DateAt (ticking 0))"
    and g4: "updatedAt (fst (mapPullRequest pr2 (orgUrl myorg) ticking 0))
               = (case creationDate pr0 of Some d \<Rightarrow> d | None \<Rightarrow> DateAt (ticking 1))"
    by blast
  from g1 have "proj = ''MyProject''" by (simp add: getProject_myrepo)
  with g2 found have "pr0 = pr2" by (simp add: rp)
  with g3 g4 some
  have get: "createdAt (fst (mapPullRequest pr2 (orgUrl myorg) ticking 0)) = DateAt 1700000000000
      \<and> updatedAt (fst (mapPullRequest pr2 (orgUrl myorg) ticking 0)) = DateAt 1700000000000"
    by simp
  have runc: "azure_createPullRequest myorg ticking ?B myrepo ?input
          = ([Az_getGitApi,
              Az_createPullRequest ''Active'' None ''refs/heads/feature-x'' ''refs/heads/main''
                False ''myrepo'' ''MyProject''],
             Succeed (fst (mapPullRequest pr1 (orgUrl myorg) ticking 0)))"
    by (simp add: azure_createPullRequest_def azure_serving_def getProject_myrepo sync_def
          await_def andThen_def resolve_def tryPromise_def Let_def)
       (simp add: myrepo_def)
  have created: "createPullRequest ?B (title_in ?input) (description_in ?input)
        (''refs/heads/'' @ sourceBranch_in ?input) (''refs/heads/'' @ targetBranch_in ?input)
        (case draft_in ?input of Some b \<Rightarrow> b | None \<Rightarrow> False) (repo myrepo) ''MyProject''
      = Inr pr1"
    by (simp add: azure_serving_def)
  from C9_azure_dates [where config = myorg and clk = ticking and B = ?B and rp = myrepo
      and input = ?input, THEN conjunct2, THEN conjunct2, THEN conjunct1, THEN mp, OF runc]
  obtain proj' pr0' where
    c1: "getProject myrepo = Inr proj'"
    and c2: "createPullRequest ?B (title_in ?input) (description_in ?input)
        (''refs/heads/'' @ sourceBranch_in ?input) (''refs/heads/'' @ targetBranch_in ?input)
        (case draft_in ?input of Some b \<Rightarrow> b | None \<Rightarrow> False) (repo myrepo) proj'
      = Inr pr0'"
    and c3: "createdAt (fst (mapPullRequest pr1 (orgUrl myorg) ticking 0))
               = (case creationDate pr0' of Some d \<Rightarrow> d | None \<Rightarrow> DateAt (ticking 0))"
    and c4: "updatedAt (fst (mapPullRequest pr1 (orgUrl myorg) ticking 0))
               = (case creationDate pr0' of Some d \<Rightarrow> d | None \<Rightarrow> DateAt (ticking 1))"
    by blast
  from c1 have "proj' = ''MyProject''" by (simp add: getProject_myrepo)
  with c2 created have "pr0' = pr1" by simp
  with c3 c4 none
  have create: "createdAt (fst (mapPullRequest pr1 (orgUrl myorg) ticking 0)) = DateAt (ticking 0)
      \<and> updatedAt (fst (mapPullRequest pr1 (orgUrl myorg) ticking 0)) = DateAt (ticking 1)"
    by simp
  have kept: "filter (\<lambda>pr. status pr = Some 2 \<or> status pr = Some 3) [pr1, pr2, pr3] = [pr2, pr3]"
    by (simp add: pr1_def pr2_def pr3_def)
  have closed: "optState ?opts = Some StateClosed"
    by (simp add: optState_def)
  have "azure_listPullRequests myorg ticking ?B myrepo ?opts
          = ([Az_getGitApi, Az_getPullRequests ''myrepo'' ''myrepo'' 4 ''MyProject'' 30],
             Succeed (mapPullRequests
                        (filter (\<lambda>pr. status pr = Some 2 \<or> status pr = Some 3) [pr1, pr2, pr3])
                        (orgUrl myorg) ticking 0))"
    by (simp add: azure_listPullRequests_def azure_serving_def getProject_myrepo sync_def
          await_def andThen_def resolve_def tryPromise_def Let_def closed optLimit_def
          del: filter.simps)
       (simp add: myrepo_def del: filter.simps)
  then have runl: "azure_listPullRequests myorg ticking ?B myrepo ?opts
          = ([Az_getGitApi, Az_getPullRequests ''myrepo'' ''myrepo'' 4 ''MyProject'' 30],
             Succeed (mapPullRequests [pr2, pr3] (orgUrl myorg) ticking 0))"
    by (simp only: kept)
  have listed: "getPullRequests ?B (repo myrepo) (repo myrepo)
        (if optState ?opts = Some StateAll then 4
         else if optState ?opts = Some StateClosed then 4 else 1)
        ''MyProject'' (optLimit ?opts) = Inr [pr1, pr2, pr3]"
    by (simp add: azure_serving_def closed)
  from C9_azure_dates [where config = myorg and clk = ticking and B = ?B and rp = myrepo
      and options = ?opts, THEN conjunct2, THEN conjunct2, THEN conjunct2, THEN conjunct2,
      THEN mp, OF runl]
  obtain proj'' prs keep where
    l1: "getProject myrepo = Inr proj''"
    and l2: "getPullRequests ?B (repo myrepo) (repo myrepo)
        (if optState ?opts = Some StateAll then 4
         else if optState ?opts = Some StateClosed then 4 else 1)
        proj'' (optLimit ?opts) = Inr prs"
    and l3: "keep = (if optState ?opts = Some StateClosed
                     then filter (\<lambda>pr. status pr = Some 2 \<or> status pr = Some 3) prs else prs)"
    and l4: "list_all2
                (\<lambda>pr q. case creationDate pr of
                           Some d \<Rightarrow> createdAt q = d \<and> updatedAt q = d
                         | None \<Rightarrow> (\<exists>j. createdAt q = DateAt (ticking j)
                                         \<and> updatedAt q = DateAt (ticking (Suc j))))
                keep (mapPullRequests [pr2, pr3] (orgUrl myorg) ticking 0)"
    by blast
  from l1 have "proj'' = ''MyProject''" by (simp add: getProject_myrepo)
  with l2 listed have "prs = [pr1, pr2, pr3]" by simp
  with l3 closed kept have "keep = [pr2, pr3]" by simp
  with l4 some some3
  have list: "map createdAt (mapPullRequests [pr2, pr3] (orgUrl myorg) ticking 0)
        = [DateAt 1700000000000, DateAt 1700000500000]
      \<and> map updatedAt (mapPullRequests [pr2, pr3] (orgUrl myorg) ticking 0)
        = [DateAt 1700000000000, DateAt 1700000500000]"
    by (auto simp: list_all2_Cons1)
  have a2: "updatedAt (fst (mapPullRequest pr1 (orgUrl myorg) ticking 0)) = DateAt (ticking 1)"
    using absent by simp
  have e1: "\<exists>p. azure_getPullRequest myorg ticking ?B myrepo 2
             = ([Az_getGitApi, Az_getPullRequest ''myrepo'' 2 ''MyProject''], Succeed p)
          \<and> createdAt p = DateAt 1700000000000
          \<and> updatedAt p = DateAt 1700000000000"
    by (rule exI [of _ "fst (mapPullRequest pr2 (orgUrl myorg) ticking 0)"])
      (rule conjI [OF run get])
  have e2: "\<exists>p. azure_createPullRequest myorg ticking ?B myrepo ?input
             = ([Az_getGitApi,
                 Az_createPullRequest ''Active'' None ''refs/heads/feature-x'' ''refs/heads/main''
                   False ''myrepo'' ''MyProject''], Succeed p)
          \<and> createdAt p = DateAt (ticking 0)
          \<and> updatedAt p = DateAt (ticking 1)"
    by (rule exI [of _ "fst (mapPullRequest pr1 (orgUrl myorg) ticking 0)"])
      (rule conjI [OF runc create])
  have e3: "\<exists>ps. azure_listPullRequests myorg ticking ?B myrepo ?opts
             = ([Az_getGitApi, Az_getPullRequests ''myrepo'' ''myrepo'' 4 ''MyProject'' 30],
                Succeed ps)
          \<and> map createdAt ps = [DateAt 1700000000000, DateAt 1700000500000]
          \<and> map updatedAt ps = [DateAt 1700000000000, DateAt 1700000500000]"
    by (rule exI [of _ "mapPullRequests [pr2, pr3] (orgUrl myorg) ticking 0"])
      (rule conjI [OF runl list])
  show ?thesis
    by (rule conjI [OF present [THEN conjunct1] conjI [OF present [THEN conjunct2]
          conjI [OF absent [THEN conjunct1] conjI [OF a2 conjI [OF e1 conjI [OF e2 e3]]]]]])
qed

section \<open>C10: the not-found error of the generic mapping\<close>

lemma github_mapError_NotFound:
  "github_mapError e operation = NotFoundError p r i \<Longrightarrow> p = GitHub \<and> r = ResRepository \<and> i = ''unknown''"
  by (auto simp: github_mapError_def Let_def split: if_splits option.splits)

lemma gitlab_mapError_NotFound:
  "gitlab_mapError e operation = NotFoundError p r i \<Longrightarrow> p = GitLab \<and> r = ResRepository \<and> i = ''unknown''"
  by (auto simp: gitlab_mapError_def Let_def split: if_splits)

lemma azure_mapError_NotFound:
  "azure_mapError e operation = NotFoundError p r i \<Longrightarrow> p = AzureDevOps \<and> r = ResRepository \<and> i = ''unknown''"
  by (auto simp: azure_mapError_def Let_def split: if_splits)

text \<open>When each generic mapping classifies a failure as not-found.\<close>

lemma github_mapError_NotFound_iff:
  "github_mapError e operation = NotFoundError GitHub ResRepository ''unknown''
     \<longleftrightarrow> isError e \<and> statusOf e = Some 404"
  by (auto simp: github_mapError_def split: option.splits if_splits)

lemma gitlab_mapError_NotFound_iff:
  "gitlab_mapError e operation = NotFoundError GitLab ResRepository ''unknown''
     \<longleftrightarrow> isError e
          \<and> \<not> (includesStr (toLowerCase (messageOf e)) ''401''
                 \<or> includesStr (toLowerCase (messageOf e)) ''unauthorized'')
          \<and> (includesStr (toLowerCase (messageOf e)) ''404''
               \<or> includesStr (toLowerCase (messageOf e)) ''not found'')"
  by (auto simp: gitlab_mapError_def Let_def)

lemma azure_mapError_NotFound_iff:
  "azure_mapError e operation = NotFoundError AzureDevOps ResRepository ''unknown''
     \<longleftrightarrow> isError e
          \<and> \<not> (includesStr (toLowerCase (messageOf e)) ''401''
                 \<or> includesStr (toLowerCase (messageOf e)) ''unauthorized'')
          \<and> (includesStr (toLowerCase (messageOf e)) ''404''
               \<or> includesStr (toLowerCase (messageOf e)) ''not found'')"
  by (auto simp: azure_mapError_def Let_def)

lemma github_generic_ops:
  "snd (github_createBranch B rp cb) = Fail (NotFoundError p r i) \<Longrightarrow> r = ResRepository \<and> i = ''unknown''"
  "snd (github_listBranches B rp) = Fail (NotFoundError p r i) \<Longrightarrow> r = ResRepository \<and> i = ''unknown''"
  "snd (github_createPullRequest B rp cp) = Fail (NotFoundError p r i) \<Longrightarrow> r = ResRepository \<and> i = ''unknown''"
  "snd (github_listPullRequests B rp opts) = Fail (NotFoundError p r i) \<Longrightarrow> r = ResRepository \<and> i = ''unknown''"
  unfolding github_createBranch_def github_listBranches_def github_createPullRequest_def
    github_listPullRequests_def
  by (auto dest!: tryPromise_snd_Fail github_mapError_NotFound)

lemma gitlab_generic_ops:
  "snd (gitlab_createBranch B rp cb) = Fail (NotFoundError p r i) \<Longrightarrow> r = ResRepository \<and> i = ''unknown''"
  "snd (gitlab_listBranches B rp) = Fail (NotFoundError p r i) \<Longrightarrow> r = ResRepository \<and> i = ''unknown''"
  "snd (gitlab_commitFile B rp cf) = Fail (NotFoundError p r i) \<Longrightarrow> r = ResRepository \<and> i = ''unknown''"
  "snd (gitlab_createPullRequest B rp cp) = Fail (NotFoundError p r i) \<Longrightarrow> r = ResRepository \<and> i = ''unknown''"
  "snd (gitlab_listPullRequests B rp opts) = Fail (NotFoundError p r i) \<Longrightarrow> r = ResRepository \<and> i = ''unknown''"
  unfolding gitlab_createBranch_def gitlab_listBranches_def gitlab_commitFile_def
    gitlab_createPullRequest_def gitlab_listPullRequests_def
  by (auto dest!: tryPromise_snd_Fail gitlab_mapError_NotFound)

lemma azure_generic_ops:
  "snd (azure_listBranches B rp) = Fail (NotFoundError p r i) \<Longrightarrow> r = ResRepository \<and> i = ''unknown''"
  "snd (azure_createPullRequest config clk B rp cp) = Fail (NotFoundError p r i) \<Longrightarrow> r = ResRepository \<and> i = ''unknown''"
  "snd (azure_listPullRequests config clk B rp opts) = Fail (NotFoundError p r i) \<Longrightarrow> r = ResRepository \<and> i = ''unknown''"
  unfolding azure_listBranches_def azure_createPullRequest_def azure_listPullRequests_def
  by (auto dest!: tryPromise_snd_Fail azure_mapError_NotFound)

lemma lower_project_not_found:
  "toLowerCase ''404 Project Not Found'' = ''404 project not found''"
  by code_simp

text \<open>
  Claim C10, amended: whenever the generic \<open>mapError\<close> of an adapter classifies a failure
  as not-found, the NotFoundError has resource "repository" and identifier "unknown",
  whatever the operation; so every operation whose handler is \<open>mapError\<close> alone
  (createBranch, listBranches, createPullRequest and listPullRequests on GitHub; these
  and commitFile on GitLab; listBranches, createPullRequest and listPullRequests on Azure
  DevOps) can fail not-found with that tag only. A more specific tag comes from inline
  checks alone, which stand in getBranch and getPullRequest of every adapter and, on
  Azure DevOps, also in createBranch and commitFile.
\<close>

theorem C10_generic_not_found:
  "(github_mapError e operation = NotFoundError p r i
      \<longrightarrow> p = GitHub \<and> r = ResRepository \<and> i = ''unknown'')
   \<and> (gitlab_mapError e operation = NotFoundError p r i
      \<longrightarrow> p = GitLab \<and> r = ResRepository \<and> i = ''unknown'')
   \<and> (azure_mapError e operation = NotFoundError p r i
      \<longrightarrow> p = AzureDevOps \<and> r = ResRepository \<and> i = ''unknown'')
   \<and> (snd (github_createBranch Bh rp cb) = Fail (NotFoundError p r i)
      \<longrightarrow> r = ResRepository \<and> i = ''unknown'')
   \<and> (snd (github_listBranches Bh rp) = Fail (NotFoundError p r i)
      \<longrightarrow> r = ResRepository \<and> i = ''unknown'')
   \<and> (snd (github_createPullRequest Bh rp cp) = Fail (NotFoundError p r i)
      \<longrightarrow> r = ResRepository \<and> i = ''unknown'')
   \<and> (snd (github_listPullRequests Bh rp opts) = Fail (NotFoundError p r i)
      \<longrightarrow> r = ResRepository \<and> i = ''unknown'')
   \<and> (snd (gitlab_createBranch Bl rp cb) = Fail (NotFoundError p r i)
      \<longrightarrow> r = ResRepository \<and> i = ''unknown'')
   \<and> (snd (gitlab_listBranches Bl rp) = Fail (NotFoundError p r i)
      \<longrightarrow> r = ResRepository \<and> i = ''unknown'')
   \<and> (snd (gitlab_commitFile Bl rp cf) = Fail (NotFoundError p r i)
      \<longrightarrow> r = ResRepository \<and> i = ''unknown'')
   \<and> (snd (gitlab_createPullRequest Bl rp cp) = Fail (NotFoundError p r i)
      \<longrightarrow> r = ResRepository \<and> i = ''unknown'')
   \<and> (snd (gitlab_listPullRequests Bl rp opts) = Fail (NotFoundError p r i)
      \<longrightarrow> r = ResRepository \<and> i = ''unknown'')
   \<and> (snd (azure_listBranches Ba rp) = Fail (NotFoundError p r i)
      \<longrightarrow> r = ResRepository \<and> i = ''unknown'')
   \<and> (snd (azure_createPullRequest config clk Ba rp cp) = Fail (NotFoundError p r i)
      \<longrightarrow> r = ResRepository \<and> i = ''unknown'')
   \<and> (snd (azure_listPullRequests config clk Ba rp opts) = Fail (NotFoundError p r i)
      \<longrightarrow> r = ResRepository \<and> i = ''unknown'')"
  by (intro conjI impI)
    (blast dest: github_mapError_NotFound gitlab_mapError_NotFound azure_mapError_NotFound
       github_generic_ops gitlab_generic_ops azure_generic_ops)+

text \<open>
  Claim C10 as stated fails in its last clause: createBranch of the Azure DevOps adapter,
  which is neither getBranch nor getPullRequest, answers an unresolvable source ref with
  a NotFoundError tagged "branch".
\<close>

theorem C10_counterexample:
  "azure_createBranch (azure_serving [] []) myrepo \<lparr>name_in = ''feature-x'', fromRef = ''nope''\<rparr>
     = ([Az_getGitApi, Az_getRefs ''myrepo'' ''MyProject'' ''heads/nope''],
        Fail (NotFoundError AzureDevOps ResBranch ''nope''))"
proof -
  have notsha: "\<not> isCommitSha ''nope''"
    by (simp add: isCommitSha_def)
  show ?thesis
    by (simp add: azure_createBranch_def azure_serving_def getProject_myrepo notsha
          await_def sync_def andThen_def tryPromise_def firstObjectId_def
          passValidationOrNotFound_def)
       (simp add: myrepo_def)
qed

text \<open>A 404 failure through each generic mapping, and through listBranches on GitLab.\<close>

theorem C10_generic_not_found_witness:
  "github_mapError (Native (JsError ''Not Found'' (Some 404) None)) ''createBranch''
     = NotFoundError GitHub ResRepository ''unknown''
   \<and> gitlab_mapError (Native (JsError ''404 Project Not Found'' None None)) ''createBranch''
     = NotFoundError GitLab ResRepository ''unknown''
   \<and> azure_mapError (Native (JsError ''404 Project Not Found'' None None)) ''createBranch''
     = NotFoundError AzureDevOps ResRepository ''unknown''
   \<and> snd (gitlab_listBranches (gitlab_rejecting (JsError ''404 Project Not Found'' None None))
            widgets)
     = Fail (NotFoundError GitLab ResRepository ''unknown'')"
proof -
  let ?e = "Native (JsError ''404 Project Not Found'' None None)"
  let ?B = "gitlab_rejecting (JsError ''404 Project Not Found'' None None)"
  have gl: "\<exists>p r i. gitlab_mapError ?e ''createBranch'' = NotFoundError p r i"
    by (simp add: gitlab_mapError_def lower_project_not_found)
  have az: "\<exists>p r i. azure_mapError ?e ''createBranch'' = NotFoundError p r i"
    by (simp add: azure_mapError_def lower_project_not_found)
  have gh: "\<exists>p r i. github_mapError (Native (JsError ''Not Found'' (Some 404) None)) ''createBranch''
              = NotFoundError p r i"
    by (simp add: github_mapError_def)
  have op: "\<exists>p r i. snd (gitlab_listBranches ?B widgets) = Fail (NotFoundError p r i)"
    by (simp add: gitlab_listBranches_def gitlab_rejecting_def promiseAll2_def andThen_def
          tryPromise_def Let_def gitlab_mapError_def lower_project_not_found)
  from gh obtain p1 r1 i1 where
    h1: "github_mapError (Native (JsError ''Not Found'' (Some 404) None)) ''createBranch''
       = NotFoundError p1 r1 i1" by blast
  have "p1 = GitHub \<and> r1 = ResRepository \<and> i1 = ''unknown''"
    by (rule C10_generic_not_found [THEN conjunct1, THEN mp, OF h1])
  with h1 have 1: "github_mapError (Native (JsError ''Not Found'' (Some 404) None)) ''createBranch''
     = NotFoundError GitHub ResRepository ''unknown''" by simp
  from gl obtain p2 r2 i2 where
    h2: "gitlab_mapError ?e ''createBranch'' = NotFoundError p2 r2 i2" by blast
  have "p2 = GitLab \<and> r2 = ResRepository \<and> i2 = ''unknown''"
    by (rule C10_generic_not_found [THEN conjunct2, THEN conjunct1, THEN mp, OF h2])
  with h2 have 2: "gitlab_mapError ?e ''createBranch'' = NotFoundError GitLab ResRepository ''unknown''"
    by simp
  from az obtain p3 r3 i3 where
    h3: "azure_mapError ?e ''createBranch'' = NotFoundError p3 r3 i3" by blast
  have "p3 = AzureDevOps \<and> r3 = ResRepository \<and> i3 = ''unknown''"
    by (rule C10_generic_not_found [THEN conjunct2, THEN conjunct2, THEN conjunct1, THEN mp,
          OF h3])
  with h3 have 3: "azure_mapError ?e ''createBranch'' = NotFoundError AzureDevOps ResRepository ''unknown''"
    by simp
  from op obtain p4 r4 i4 where
    o: "snd (gitlab_listBranches ?B widgets) = Fail (NotFoundError p4 r4 i4)" by blast
  then have p4: "p4 = GitLab"
    by (auto simp: gitlab_listBranches_def dest!: tryPromise_snd_Fail gitlab_mapError_NotFound)
  have "r4 = ResRepository \<and> i4 = ''unknown''"
    by (rule C10_generic_not_found [THEN conjunct2, THEN conjunct2, THEN conjunct2,
          THEN conjunct2, THEN conjunct2, THEN conjunct2, THEN conjunct2, THEN conjunct2,
          THEN conjunct1, THEN mp, OF o])
  with o p4
  have 4: "snd (gitlab_listBranches ?B widgets) = Fail (NotFoundError GitLab ResRepository ''unknown'')"
    by simp
  from 1 2 3 4 show ?thesis by simp
qed

end
